theory Spec2Isabelle
  imports Main
begin

section \<open>Time and calendar values\<close>

text \<open>
  A JavaScript \<^verbatim>\<open>Date\<close> is a count of milliseconds. The model reads every timestamp on the
  venue's local clock, so that a calendar day is a block of 86400000 milliseconds (the
  zone has no daylight-saving shifts). \<^verbatim>\<open>moment(t).startOf('day')\<close>, \<^verbatim>\<open>endOf('day')\<close>,
  the comparison of two \<^verbatim>\<open>format('YYYY-MM-DD')\<close> strings and \<^verbatim>\<open>moment(t).day()\<close>
  (0 is Sunday; day 0 of the count, 1970-01-01, was a Thursday) become arithmetic.
\<close>

type_synonym timestamp = int

definition msPerMinute :: int where
  "msPerMinute = 60000"

definition msPerDay :: int where
  "msPerDay = 86400000"

definition startOfDay :: "timestamp \<Rightarrow> timestamp" where
  "startOfDay t = t - t mod msPerDay"

definition endOfDay :: "timestamp \<Rightarrow> timestamp" where
  "endOfDay t = startOfDay t + (msPerDay - 1)"

definition sameDay :: "timestamp \<Rightarrow> timestamp \<Rightarrow> bool" where
  "sameDay a b = (startOfDay a = startOfDay b)"

definition dayOfWeek :: "timestamp \<Rightarrow> nat" where
  "dayOfWeek t = nat ((t div msPerDay + 4) mod 7)"

text \<open>
  An hour and a minute of the day. The time of a booking request is one (it has passed
  the validators of its route); the opening and closing times of the settings are
  texts, see below.
\<close>

record timeOfDay =
  hour :: nat
  minute :: nat

text \<open>\<^verbatim>\<open>moment(dateStr + ' ' + time)\<close>: the given time of day on the day of \<open>date\<close>.\<close>

definition atTime :: "timestamp \<Rightarrow> timeOfDay \<Rightarrow> timestamp" where
  "atTime date t = startOfDay date + int (hour t) * 3600000 + int (minute t) * msPerMinute"

text \<open>
  \<^verbatim>\<open>moment(date).set({hour, minute, second: 0})\<close> keeps the day and the millisecond
  part of \<open>date\<close>.
\<close>

definition setTime :: "timestamp \<Rightarrow> timeOfDay \<Rightarrow> timestamp" where
  "setTime date t = atTime date t + date mod 1000"

subsection \<open>Time texts\<close>

text \<open>
  Opening and closing times are stored as strings. The weekly schedule's are required
  and matched against \<^verbatim>\<open>/^([01]\d|2[0-3]):([0-5]\d)$/\<close>; those of a special event are
  neither required nor matched against anything, so such a time is any string or
  \<^verbatim>\<open>undefined\<close> (\<open>None\<close>). The source compares the raw values with \<^verbatim>\<open><\<close>: two strings
  compare character by character (a proper prefix is smaller), and a comparison with
  \<^verbatim>\<open>undefined\<close> is false.
\<close>

fun textLess :: "string \<Rightarrow> string \<Rightarrow> bool" where
  "textLess [] [] = False"
| "textLess [] (y # ys) = True"
| "textLess (x # xs) [] = False"
| "textLess (x # xs) (y # ys) =
     ((of_char x :: nat) < of_char y \<or> (x = y \<and> textLess xs ys))"

definition jsLess :: "string option \<Rightarrow> string option \<Rightarrow> bool" where
  "jsLess a b = (case a of
      None \<Rightarrow> False
    | Some x \<Rightarrow> (case b of None \<Rightarrow> False | Some y \<Rightarrow> textLess x y))"

text \<open>The hour and minute of a text of the schema's form \<^verbatim>\<open>HH:MM\<close>, if it has that form.\<close>

definition isDigit :: "char \<Rightarrow> bool" where
  "isDigit c = (48 \<le> (of_char c :: nat) \<and> (of_char c :: nat) \<le> 57)"

definition digitValue :: "char \<Rightarrow> nat" where
  "digitValue c = of_char c - 48"

definition clockOf :: "string \<Rightarrow> timeOfDay option" where
  "clockOf s =
     (case s of
        [a, b, c, d, e] \<Rightarrow>
          if isDigit a \<and> isDigit b \<and> c = CHR '':'' \<and> isDigit d \<and> isDigit e
             \<and> 10 * digitValue a + digitValue b \<le> 23 \<and> digitValue d \<le> 5
          then Some \<lparr>hour = 10 * digitValue a + digitValue b,
                      minute = 10 * digitValue d + digitValue e\<rparr>
          else None
      | _ \<Rightarrow> None)"

text \<open>
  What the libraries make of the inputs that the model does not work out itself: the
  test of an e-mail address against the pattern of the booking schema; the moment
  that \<^verbatim>\<open>moment(dateStr + ' ' + text)\<close> makes of a day and a time text that is not of
  the form \<^verbatim>\<open>HH:MM\<close>; and the moment that
  \<^verbatim>\<open>moment(date).set({hour: parseInt(text.split(':')[0]), minute: parseInt(text.split(':')[1]), second: 0})\<close>
  makes of a date and such a text. \<open>None\<close> is an invalid moment. Every function below
  that depends on one of them takes the library as its first argument.
\<close>

record library =
  emailMatches :: "string \<Rightarrow> bool"
  momentParse :: "timestamp \<Rightarrow> string \<Rightarrow> timestamp option"
  momentSet :: "timestamp \<Rightarrow> string \<Rightarrow> timestamp option"

text \<open>
  \<^verbatim>\<open>moment(dateStr + ' ' + text)\<close>, where \<^verbatim>\<open>dateStr\<close> is the day of \<open>date\<close>. A text of
  the form \<^verbatim>\<open>HH:MM\<close> gives that time on that day; with \<^verbatim>\<open>undefined\<close> the string ends
  in the word "undefined" and the moment is invalid.
\<close>

definition momentAt :: "library \<Rightarrow> timestamp \<Rightarrow> string option \<Rightarrow> timestamp option" where
  "momentAt lib date text =
     (case text of
        None \<Rightarrow> None
      | Some s \<Rightarrow>
          (case clockOf s of
             Some t \<Rightarrow> Some (atTime date t)
           | None \<Rightarrow> momentParse lib (startOfDay date) s))"

text \<open>
  \<^verbatim>\<open>moment(date).set({hour: ..., minute: ..., second: 0})\<close> for a time text that is a
  string.
\<close>

definition clockMoment :: "library \<Rightarrow> timestamp \<Rightarrow> string \<Rightarrow> timestamp option" where
  "clockMoment lib date s =
     (case clockOf s of
        Some t \<Rightarrow> Some (setTime date t)
      | None \<Rightarrow> momentSet lib date s)"

section \<open>Data model\<close>

text \<open>
  The Mongoose schemas, with the fields the booking engine reads or writes. Identifiers
  (\<^verbatim>\<open>_id\<close>) are natural numbers; capacities and party sizes are whole numbers.
\<close>

record table =
  table_id :: nat
  tableNumber :: string
  capacity :: nat
  isActive :: bool
  isReservable :: bool

record openingHoursEntry =
  day :: nat
  "open" :: string
  close :: string
  isClosed :: bool

record closedDate =
  closedDate_date :: timestamp
  closedDate_reason :: "string option"

text \<open>
  \<^verbatim>\<open>customOpeningHours: { open: String, close: String }\<close> is a nested path of the
  schema, not a sub-document: on a stored event it is always an object, and each of its
  two fields is a string or \<^verbatim>\<open>undefined\<close>.
\<close>

record customHours =
  custom_open :: "string option"
  custom_close :: "string option"

record specialEvent =
  event_name :: string
  event_date :: timestamp
  customOpeningHours :: customHours

record bookingRules =
  timeSlotDuration :: int
  bufferBetweenBookings :: int
  maxPartySize :: nat
  maxCapacityThreshold :: nat

record restaurant =
  openingHours :: "openingHoursEntry list"
  maxCapacity :: nat
  bookingRules :: bookingRules
  closedDates :: "closedDate list"
  specialEvents :: "specialEvent list"

datatype status = Pending | Confirmed | Seated | Completed | Cancelled | NoShow

datatype source = Online | Phone | WalkIn | Manual | ThirdParty

record customer =
  customer_userId :: "nat option"
  customer_name :: string
  customer_email :: string
  customer_phone :: string

record booking =
  booking_id :: nat
  booking_customer :: customer
  booking_partySize :: nat
  booking_date :: timestamp
  timeSlot_start :: timestamp
  timeSlot_end :: timestamp
  booking_duration :: int
  booking_tables :: "nat list"
  booking_specialRequests :: "string option"
  booking_status :: status
  booking_source :: source
  booking_createdBy :: "nat option"

datatype blockReason = ReasonBooking | ReasonMaintenance | ReasonEvent | ReasonClosed | ReasonOther

record blockedSlot =
  blocked_start :: timestamp
  blocked_end :: timestamp
  blocked_reason :: blockReason
  blocked_bookingId :: "nat option"

text \<open>
  One cache document per (date, table): the free slots as (start, end) pairs and the
  blocked intervals.
\<close>

record availability =
  availableSlots :: "(timestamp \<times> timestamp) list"
  blockedSlots :: "blockedSlot list"

text \<open>
  The database: the single settings document (\<^verbatim>\<open>Restaurant.findOne()\<close> gives
  \<^verbatim>\<open>null\<close> when there is none), the table and booking collections in their stored
  order, and the cache collection under its unique (date, table) index.
\<close>

record db =
  db_restaurant :: "restaurant option"
  db_tables :: "table list"
  db_bookings :: "booking list"
  db_availability :: "timestamp \<times> nat \<rightharpoonup> availability"

text \<open>
  The messages the handlers answer with. Each constructor stands for one message of the
  source; the values the message prints are its arguments.
\<close>

datatype reason =
    ConfigNotFound
  | ClosedOnDate "string option"
  | ClosedOnDay
  | OutsideHours "string option" "string option"
  | NoTablesConfigured
  | PartySizeLimit nat
  | NoTablesAvailable
  | NoSuitableConfiguration
  | CapacityExceeded
  | SelectedTablesNotAvailable
  | ValidationErrors
  | InvalidStatusValue

text \<open>Reading a property of \<^verbatim>\<open>null\<close> or \<^verbatim>\<open>undefined\<close> throws.\<close>

datatype jsError = TypeError

section \<open>Opening hours\<close>

text \<open>
  \<^verbatim>\<open>checkRestaurantOpen\<close> answers \<^verbatim>\<open>{ isOpen: true }\<close> or
  \<^verbatim>\<open>{ isOpen: false, reason }\<close>. An empty reason string of a closed date is falsy and
  prints like a missing one.
\<close>

datatype openStatus = IsOpen | NotOpen reason

definition closedReason :: "closedDate \<Rightarrow> string option" where
  "closedReason c = (case closedDate_reason c of
      None \<Rightarrow> None
    | Some r \<Rightarrow> (if r = [] then None else Some r))"

text \<open>
  The hours in force on a day, \<^verbatim>\<open>{ open, close, isClosed }\<close>. The test
  \<^verbatim>\<open>specialEvent && specialEvent.customOpeningHours\<close> holds for every special event
  pinned to the date, since the nested object is always there: the first pinned event
  gives the hours, declared or not, and the weekly entry is read only when no event is
  pinned to the date.
\<close>

record dayHours =
  dh_open :: "string option"
  dh_close :: "string option"
  dh_isClosed :: bool

definition findDayHours :: "restaurant \<Rightarrow> timestamp \<Rightarrow> dayHours option" where
  "findDayHours r date =
     (case List.find (\<lambda>e. sameDay (event_date e) date) (specialEvents r) of
        Some specialEvent \<Rightarrow>
          Some \<lparr>dh_open = custom_open (customOpeningHours specialEvent),
                dh_close = custom_close (customOpeningHours specialEvent),
                dh_isClosed = False\<rparr>
      | None \<Rightarrow>
          map_option
            (\<lambda>h. \<lparr>dh_open = Some (open h), dh_close = Some (close h), dh_isClosed = isClosed h\<rparr>)
            (List.find (\<lambda>h. day h = dayOfWeek date) (openingHours r)))"

text \<open>
  The window test. \<^verbatim>\<open>isBefore\<close> and \<^verbatim>\<open>isAfter\<close> are false against an invalid moment;
  a closing text that compares below the opening text moves the closing moment to the
  next day.
\<close>

definition withinHours ::
  "library \<Rightarrow> timestamp \<Rightarrow> string option \<Rightarrow> string option \<Rightarrow> timestamp \<Rightarrow> timestamp \<Rightarrow> bool" where
  "withinHours lib date openT closeT startTime endTime =
     (let openTime = momentAt lib date openT;
          closeDateTime = (if jsLess closeT openT
                           then map_option (\<lambda>t. t + msPerDay) (momentAt lib date closeT)
                           else momentAt lib date closeT)
      in \<not> ((case openTime of None \<Rightarrow> False | Some t \<Rightarrow> startTime < t)
            \<or> (case closeDateTime of None \<Rightarrow> False | Some t \<Rightarrow> t < endTime)))"

definition checkRestaurantOpen ::
  "library \<Rightarrow> restaurant option \<Rightarrow> timestamp \<Rightarrow> timestamp \<Rightarrow> timestamp \<Rightarrow> openStatus" where
  "checkRestaurantOpen lib settings date startTime endTime =
     (case settings of
        None \<Rightarrow> NotOpen ConfigNotFound
      | Some r \<Rightarrow>
          (case List.find (\<lambda>c. sameDay (closedDate_date c) date) (closedDates r) of
             Some c \<Rightarrow> NotOpen (ClosedOnDate (closedReason c))
           | None \<Rightarrow>
               (case findDayHours r date of
                  None \<Rightarrow> NotOpen ClosedOnDay
                | Some h \<Rightarrow>
                    if dh_isClosed h then NotOpen ClosedOnDay
                    else if withinHours lib date (dh_open h) (dh_close h) startTime endTime
                    then IsOpen
                    else NotOpen (OutsideHours (dh_open h) (dh_close h)))))"

text \<open>
  The day-level part of the open check: the date has no closed-date entry and hours in
  force that are not marked closed, so that some window of the day can be open.
\<close>

definition venueOpenOn :: "restaurant \<Rightarrow> timestamp \<Rightarrow> bool" where
  "venueOpenOn r date =
     (List.find (\<lambda>c. sameDay (closedDate_date c) date) (closedDates r) = None
      \<and> (case findDayHours r date of None \<Rightarrow> False | Some h \<Rightarrow> \<not> dh_isClosed h))"

section \<open>The table-assignment solver\<close>

definition comboCapacity :: "table list \<Rightarrow> nat" where
  "comboCapacity combo = sum_list (map capacity combo)"

text \<open>
  The body of the combination loops: the pair (\<open>bestCombination\<close>, \<open>bestCapacity\<close>) is
  replaced when the candidate seats the party and no candidate was kept yet
  (\<open>bestCapacity\<close> is 0) or the candidate is strictly smaller.
\<close>

definition tryCombination :: "nat \<Rightarrow> table list \<times> nat \<Rightarrow> table list \<Rightarrow> table list \<times> nat" where
  "tryCombination partySize best combo =
     (let cap = comboCapacity combo in
      if partySize \<le> cap \<and> (snd best = 0 \<or> cap < snd best) then (combo, cap) else best)"

text \<open>The candidates in the order the nested index loops visit them.\<close>

definition pairCombinations :: "table list \<Rightarrow> table list list" where
  "pairCombinations ts =
     concat (map (\<lambda>i. map (\<lambda>j. [ts ! i, ts ! j]) [i + 1 ..< length ts]) [0 ..< length ts])"

definition tripleCombinations :: "table list \<Rightarrow> table list list" where
  "tripleCombinations ts =
     concat (map (\<lambda>i. concat (map (\<lambda>j. map (\<lambda>k. [ts ! i, ts ! j, ts ! k])
        [j + 1 ..< length ts]) [i + 1 ..< length ts])) [0 ..< length ts])"

text \<open>
  \<^verbatim>\<open>Array.prototype.sort\<close> with the comparator \<^verbatim>\<open>a.capacity - b.capacity\<close> is a stable
  sort by capacity, as \<^const>\<open>sort_key\<close> is.
\<close>

definition findBestTableCombination :: "table list \<Rightarrow> nat \<Rightarrow> table list" where
  "findBestTableCombination availableTables partySize =
     (case List.find (\<lambda>t. capacity t = partySize) availableTables of
        Some perfectTable \<Rightarrow> [perfectTable]
      | None \<Rightarrow>
          (let suitableTables = filter (\<lambda>t. partySize \<le> capacity t) availableTables in
           if suitableTables \<noteq> [] then [hd (sort_key capacity suitableTables)]
           else
             (let best2 = foldl (tryCombination partySize) ([], 0)
                            (pairCombinations availableTables);
                  best3 = (if fst best2 = []
                           then foldl (tryCombination partySize) best2
                                  (tripleCombinations availableTables)
                           else best2)
              in fst best3)))"

section \<open>Numbers of the capacity guard\<close>

text \<open>
  JavaScript numbers are IEEE 754 binary64 values: \<^verbatim>\<open>a / b\<close> and \<^verbatim>\<open>a * b\<close> are the exact
  quotient and product rounded to the nearest value with a 53-bit significand, ties to
  the even significand. A positive binary64 value is kept as a pair \<open>(m, e)\<close> that stands
  for \<open>m * 2 ^ e\<close>; \<^verbatim>\<open>toDouble p q\<close> is the value nearest to the fraction \<open>p / q\<close> of two
  positive integers (magnitudes stay far inside the exponent range of the format).
\<close>

fun bitLength :: "nat \<Rightarrow> nat" where
  "bitLength n = (if n = 0 then 0 else Suc (bitLength (n div 2)))"

declare bitLength.simps [simp del]

definition roundHalfEven :: "int \<Rightarrow> int \<Rightarrow> int" where
  "roundHalfEven p q =
     (let f = p div q; r = p mod q in
      if 2 * r < q then f
      else if q < 2 * r then f + 1
      else if even f then f else f + 1)"

text \<open>The exponent \<open>k\<close> with \<open>2 ^ k \<le> p / q < 2 ^ (k + 1)\<close>.\<close>

definition binaryExponent :: "int \<Rightarrow> int \<Rightarrow> int" where
  "binaryExponent p q =
     (let d = int (bitLength (nat p)) - int (bitLength (nat q)) in
      if q * 2 ^ nat d \<le> p * 2 ^ nat (- d) then d else d - 1)"

definition toDouble :: "int \<Rightarrow> int \<Rightarrow> int \<times> int" where
  "toDouble p q =
     (let e = binaryExponent p q - 52 in
      (roundHalfEven (p * 2 ^ nat (- e)) (q * 2 ^ nat e), e))"

text \<open>
  \<^verbatim>\<open>Math.floor(restaurant.maxCapacity * (restaurant.bookingRules.maxCapacityThreshold / 100))\<close>:
  the quotient is rounded, then the product is rounded, then floored.
\<close>

definition maxAllowed :: "nat \<Rightarrow> nat \<Rightarrow> int" where
  "maxAllowed cap threshold =
     (if cap = 0 \<or> threshold = 0 then 0
      else
        (let (m1, e1) = toDouble (int threshold) 100;
             (m2, e2) = toDouble (int cap * m1 * 2 ^ nat e1) (2 ^ nat (- e1))
         in (m2 * 2 ^ nat e2) div 2 ^ nat (- e2)))"

section \<open>Finding tables for a request\<close>

datatype tableAvailability = Available "table list" nat | Unavailable reason

definition activeStatus :: "status \<Rightarrow> bool" where
  "activeStatus s = (s = Pending \<or> s = Confirmed \<or> s = Seated)"

text \<open>
  The query for the bookings of the day that overlap the requested window:
  \<^verbatim>\<open>'timeSlot.start': { $lt: endTime }\<close> and \<^verbatim>\<open>'timeSlot.end': { $gt: startTime }\<close>.
\<close>

definition overlappingBookings ::
  "booking list \<Rightarrow> timestamp \<Rightarrow> timestamp \<Rightarrow> timestamp \<Rightarrow> booking list" where
  "overlappingBookings bs date startTime endTime =
     filter (\<lambda>b. booking_date b = startOfDay date
                \<and> activeStatus (booking_status b)
                \<and> timeSlot_start b < endTime
                \<and> startTime < timeSlot_end b) bs"

definition bookedTableIds :: "booking list \<Rightarrow> nat list" where
  "bookedTableIds overlapping = concat (map booking_tables overlapping)"

text \<open>The \<^verbatim>\<open>reduce\<close> over the overlapping bookings, with its own (inclusive) test.\<close>

definition currentBookedPeople :: "booking list \<Rightarrow> timestamp \<Rightarrow> timestamp \<Rightarrow> nat" where
  "currentBookedPeople overlapping startTime endTime =
     foldl (\<lambda>sum b.
        if (timeSlot_start b < endTime \<or> timeSlot_start b = endTime)
           \<and> (startTime < timeSlot_end b \<or> timeSlot_end b = startTime)
        then sum + booking_partySize b else sum) 0 overlapping"

definition findAvailableTables ::
  "db \<Rightarrow> timestamp \<Rightarrow> timestamp \<Rightarrow> timestamp \<Rightarrow> nat \<Rightarrow> bool \<Rightarrow> jsError + tableAvailability" where
  "findAvailableTables d date startTime endTime partySize isStaff =
     (let activeTables = filter isActive (db_tables d) in
      if activeTables = [] then Inr (Unavailable NoTablesConfigured)
      else
        (case (if isStaff then Inr None
               else (case db_restaurant d of
                       None \<Rightarrow> Inl TypeError
                     | Some r \<Rightarrow>
                         if maxPartySize (bookingRules r) < partySize
                         then Inr (Some (maxPartySize (bookingRules r))) else Inr None)) of
           Inl err \<Rightarrow> Inl err
         | Inr (Some limit) \<Rightarrow> Inr (Unavailable (PartySizeLimit limit))
         | Inr None \<Rightarrow>
             (let overlapping = overlappingBookings (db_bookings d) date startTime endTime;
                  booked = bookedTableIds overlapping;
                  availableTables = sort_key capacity
                    (filter (\<lambda>t. table_id t \<notin> set booked \<and> isReservable t) activeTables)
              in if availableTables = [] then Inr (Unavailable NoTablesAvailable)
                 else
                   (let result = findBestTableCombination availableTables partySize in
                    if result = [] then Inr (Unavailable NoSuitableConfiguration)
                    else
                      (case db_restaurant d of
                         None \<Rightarrow> Inl TypeError
                       | Some r \<Rightarrow>
                           (let totalCapacity = comboCapacity result;
                                totalPeopleIfBooked =
                                  currentBookedPeople overlapping startTime endTime + partySize;
                                limit = maxAllowed (maxCapacity r)
                                          (maxCapacityThreshold (bookingRules r))
                            in if \<not> isStaff \<and> limit < int totalPeopleIfBooked
                               then Inr (Unavailable CapacityExceeded)
                               else Inr (Available result totalCapacity)))))))"

section \<open>The availability cache\<close>

text \<open>
  The slot loop: while the current slot starts before closing time, stop at a slot that
  would end after closing time, otherwise push the slot and advance. With a slot
  duration that is not positive the loop of the source does not end; the function then
  has no value.
\<close>

partial_function (option) generateSlots ::
  "timestamp \<Rightarrow> timestamp \<Rightarrow> int \<Rightarrow> (timestamp \<times> timestamp) list
     \<Rightarrow> (timestamp \<times> timestamp) list option" where
  "generateSlots currentSlot endDateTime slotMs acc =
     (if currentSlot < endDateTime
      then (if endDateTime < currentSlot + slotMs then Some acc
            else generateSlots (currentSlot + slotMs) endDateTime slotMs
                   (acc @ [(currentSlot, currentSlot + slotMs)]))
      else Some acc)"

text \<open>
  What the loop computes when it ends: the slots \<open>[start + k * slotMs, start + (k + 1) * slotMs)\<close>
  that end at or before closing time.
\<close>

definition slotPartition :: "timestamp \<Rightarrow> timestamp \<Rightarrow> int \<Rightarrow> (timestamp \<times> timestamp) list" where
  "slotPartition startDateTime endDateTime slotMs =
     map (\<lambda>k. (startDateTime + int k * slotMs, startDateTime + (int k + 1) * slotMs))
       [0 ..< nat ((endDateTime - startDateTime) div slotMs)]"

text \<open>
  The loop between two moments: \<^verbatim>\<open>currentSlot.isBefore(endDateTime)\<close> is false when one
  of them is invalid, and no slot is pushed.
\<close>

definition slotsBetween ::
  "timestamp option \<Rightarrow> timestamp option \<Rightarrow> int \<Rightarrow> (timestamp \<times> timestamp) list option" where
  "slotsBetween startDateTime endDateTime slotMs =
     (case startDateTime of
        None \<Rightarrow> Some []
      | Some s \<Rightarrow>
          (case endDateTime of
             None \<Rightarrow> Some []
           | Some e \<Rightarrow> generateSlots s e slotMs []))"

definition windowPartition ::
  "timestamp option \<Rightarrow> timestamp option \<Rightarrow> int \<Rightarrow> (timestamp \<times> timestamp) list" where
  "windowPartition startDateTime endDateTime slotMs =
     (case startDateTime of
        None \<Rightarrow> []
      | Some s \<Rightarrow>
          (case endDateTime of
             None \<Rightarrow> []
           | Some e \<Rightarrow> slotPartition s e slotMs))"

definition cacheKey :: "timestamp \<Rightarrow> table \<Rightarrow> timestamp \<times> nat" where
  "cacheKey date t = (startOfDay date, table_id t)"

definition closedSnapshot :: "timestamp \<Rightarrow> availability" where
  "closedSnapshot date =
     \<lparr>availableSlots = [],
      blockedSlots = [\<lparr>blocked_start = startOfDay date, blocked_end = endOfDay date,
                       blocked_reason = ReasonClosed, blocked_bookingId = None\<rparr>]\<rparr>"

fun writeClosedDay ::
  "timestamp \<Rightarrow> table list \<Rightarrow> (timestamp \<times> nat \<rightharpoonup> availability)
     \<Rightarrow> (timestamp \<times> nat \<rightharpoonup> availability)" where
  "writeClosedDay date [] cache = cache"
| "writeClosedDay date (t # ts) cache =
     writeClosedDay date ts (cache(cacheKey date t \<mapsto> closedSnapshot date))"

definition bookingBlock :: "booking \<Rightarrow> blockedSlot" where
  "bookingBlock b =
     \<lparr>blocked_start = timeSlot_start b, blocked_end = timeSlot_end b,
      blocked_reason = ReasonBooking, blocked_bookingId = Some (booking_id b)\<rparr>"

definition tableBookings :: "booking list \<Rightarrow> table \<Rightarrow> booking list" where
  "tableBookings bookings t = filter (\<lambda>b. table_id t \<in> set (booking_tables b)) bookings"

text \<open>
  The document written for a table on an open day: the generated slots as they are, and
  one blocked interval per booking of the table.
\<close>

definition openSnapshot :: "(timestamp \<times> timestamp) list \<Rightarrow> booking list \<Rightarrow> table \<Rightarrow> availability" where
  "openSnapshot slots bookings t =
     \<lparr>availableSlots = slots,
      blockedSlots = map bookingBlock (tableBookings bookings t)\<rparr>"

fun writeOpenDay ::
  "timestamp \<Rightarrow> timestamp option \<Rightarrow> timestamp option \<Rightarrow> int \<Rightarrow> booking list \<Rightarrow> table list
     \<Rightarrow> (timestamp \<times> nat \<rightharpoonup> availability)
     \<Rightarrow> (timestamp \<times> nat \<rightharpoonup> availability) option" where
  "writeOpenDay date startDateTime endDateTime slotMs bookings [] cache = Some cache"
| "writeOpenDay date startDateTime endDateTime slotMs bookings (t # ts) cache =
     (case slotsBetween startDateTime endDateTime slotMs of
        None \<Rightarrow> None
      | Some slots \<Rightarrow>
          writeOpenDay date startDateTime endDateTime slotMs bookings ts
            (cache(cacheKey date t \<mapsto> openSnapshot slots bookings t)))"

definition daySettings :: "restaurant \<Rightarrow> timestamp \<Rightarrow> openingHoursEntry option" where
  "daySettings r date = List.find (\<lambda>h. day h = dayOfWeek date) (openingHours r)"

definition cacheDayClosed :: "restaurant \<Rightarrow> timestamp \<Rightarrow> bool" where
  "cacheDayClosed r date =
     (list_ex (\<lambda>c. sameDay (closedDate_date c) date) (closedDates r)
      \<or> (case daySettings r date of None \<Rightarrow> False | Some h \<Rightarrow> isClosed h))"

text \<open>
  \<^verbatim>\<open>openTime\<close> and \<^verbatim>\<open>closeTime\<close> of the rebuild: those of the first special event pinned
  to the date (its nested hours object is always there, its fields may be
  \<^verbatim>\<open>undefined\<close>), else the weekly entry's, else 09:00 and 22:00.
\<close>

definition cacheHours :: "restaurant \<Rightarrow> timestamp \<Rightarrow> string option \<times> string option" where
  "cacheHours r date =
     (case List.find (\<lambda>e. sameDay (event_date e) date) (specialEvents r) of
        Some specialEvent \<Rightarrow>
          (custom_open (customOpeningHours specialEvent),
           custom_close (customOpeningHours specialEvent))
      | None \<Rightarrow>
          (case daySettings r date of
             Some h \<Rightarrow> (Some (open h), Some (close h))
           | None \<Rightarrow> (Some ''09:00'', Some ''22:00'')))"

definition cacheStart :: "library \<Rightarrow> timestamp \<Rightarrow> string \<Rightarrow> timestamp option" where
  "cacheStart lib date openTime = clockMoment lib date openTime"

text \<open>A closing text that compares below the opening text is on the next day.\<close>

definition cacheEnd :: "library \<Rightarrow> timestamp \<Rightarrow> string \<Rightarrow> string \<Rightarrow> timestamp option" where
  "cacheEnd lib date openTime closeTime =
     (if textLess closeTime openTime
      then map_option (\<lambda>t. t + msPerDay) (clockMoment lib date closeTime)
      else clockMoment lib date closeTime)"

definition dayBookings :: "booking list \<Rightarrow> timestamp \<Rightarrow> booking list" where
  "dayBookings bs date =
     filter (\<lambda>b. booking_date b = startOfDay date \<and> activeStatus (booking_status b)) bs"

text \<open>
  \<^verbatim>\<open>updateAvailabilityCache(date)\<close>. \<open>None\<close>: the call does not return.
  \<open>Some (Inl TypeError)\<close>: it throws before any write, for want of a settings document
  or, on a day not treated as closed, because \<^verbatim>\<open>openTime.split\<close> or
  \<^verbatim>\<open>closeTime.split\<close> is called on \<^verbatim>\<open>undefined\<close>.
\<close>

definition updateAvailabilityCache :: "library \<Rightarrow> timestamp \<Rightarrow> db \<Rightarrow> (jsError + db) option" where
  "updateAvailabilityCache lib date d =
     (case db_restaurant d of
        None \<Rightarrow> Some (Inl TypeError)
      | Some r \<Rightarrow>
          (let activeTables = filter isActive (db_tables d) in
           if cacheDayClosed r date
           then Some (Inr (d\<lparr>db_availability :=
                              writeClosedDay date activeTables (db_availability d)\<rparr>))
           else
             (case fst (cacheHours r date) of
                None \<Rightarrow> Some (Inl TypeError)
              | Some openTime \<Rightarrow>
                  (case snd (cacheHours r date) of
                     None \<Rightarrow> Some (Inl TypeError)
                   | Some closeTime \<Rightarrow>
                       (let startDateTime = cacheStart lib date openTime;
                            endDateTime = cacheEnd lib date openTime closeTime;
                            bookings = dayBookings (db_bookings d) date
                        in case writeOpenDay date startDateTime endDateTime
                                  (timeSlotDuration (bookingRules r) * msPerMinute)
                                  bookings activeTables (db_availability d) of
                             None \<Rightarrow> None
                           | Some cache \<Rightarrow> Some (Inr (d\<lparr>db_availability := cache\<rparr>)))))))"

text \<open>The cache document of a table after a rebuild that returned.\<close>

definition rebuiltSnapshot :: "library \<Rightarrow> timestamp \<Rightarrow> db \<Rightarrow> table \<Rightarrow> availability option" where
  "rebuiltSnapshot lib date d t =
     (case updateAvailabilityCache lib date d of
        Some (Inr d') \<Rightarrow> db_availability d' (cacheKey date t)
      | _ \<Rightarrow> None)"

section \<open>The booking handlers\<close>

datatype role = Admin | Manager | Staff | Customer

record user =
  user_id :: nat
  user_role :: role

text \<open>
  The body of a create request. \<open>req_validationOk\<close> is the verdict of the route's
  validation chain (\<^verbatim>\<open>validationResult(req).isEmpty()\<close>), which the handler tests before
  it reads anything else; the chain wants a time that matches
  \<^verbatim>\<open>/^([01]\d|2[0-3]):([0-5]\d)$/\<close>, an ISO 8601 date and a numeric party size, so the
  time is kept as its hour and minute, the date as a timestamp and the party size as a
  whole number. A missing \<^verbatim>\<open>tableIds\<close> is the empty list, a missing \<^verbatim>\<open>duration\<close> is
  \<open>None\<close>. \<open>req_user\<close> is \<^verbatim>\<open>req.user\<close>.
\<close>

record bookingRequest =
  req_validationOk :: bool
  req_user :: "user option"
  req_customerName :: string
  req_customerEmail :: string
  req_customerPhone :: string
  req_partySize :: nat
  req_date :: timestamp
  req_time :: timeOfDay
  req_duration :: "int option"
  req_tableIds :: "nat list"
  req_specialRequests :: "string option"

datatype response =
    Created booking
  | Updated booking
  | BadRequest reason
  | NotFound
  | ServerError

definition isStaffUser :: "user option \<Rightarrow> bool" where
  "isStaffUser u = (case u of None \<Rightarrow> False
                    | Some usr \<Rightarrow> user_role usr = Admin \<or> user_role usr = Manager
                                 \<or> user_role usr = Staff)"

text \<open>\<^verbatim>\<open>duration || 120\<close>: a missing or zero duration is 120 minutes.\<close>

definition requestDuration :: "bookingRequest \<Rightarrow> int" where
  "requestDuration req = (case req_duration req of
      None \<Rightarrow> 120
    | Some m \<Rightarrow> (if m = 0 then 120 else m))"

definition requestStart :: "bookingRequest \<Rightarrow> timestamp" where
  "requestStart req = atTime (req_date req) (req_time req)"

definition requestEnd :: "bookingRequest \<Rightarrow> timestamp" where
  "requestEnd req = requestStart req + requestDuration req * msPerMinute"

text \<open>
  The constraints checked for a request that is not from staff: \<open>Inr None\<close> lets the
  request through, \<open>Inr (Some reason)\<close> answers 400 with the reason.
\<close>

definition customerChecks :: "library \<Rightarrow> db \<Rightarrow> bookingRequest \<Rightarrow> jsError + reason option" where
  "customerChecks lib d req =
     (case checkRestaurantOpen lib (db_restaurant d) (req_date req)
             (requestStart req) (requestEnd req) of
        NotOpen why \<Rightarrow> Inr (Some why)
      | IsOpen \<Rightarrow>
          (case db_restaurant d of
             None \<Rightarrow> Inl TypeError
           | Some r \<Rightarrow>
               if maxPartySize (bookingRules r) < req_partySize req
               then Inr (Some (PartySizeLimit (maxPartySize (bookingRules r))))
               else
                 (case findAvailableTables d (req_date req) (requestStart req)
                         (requestEnd req) (req_partySize req) False of
                    Inl err \<Rightarrow> Inl err
                  | Inr (Unavailable why) \<Rightarrow> Inr (Some why)
                  | Inr (Available ts cap) \<Rightarrow>
                      if req_tableIds req \<noteq> []
                         \<and> list_ex (\<lambda>tableId. tableId \<notin> set (map table_id ts))
                              (req_tableIds req)
                      then Inr (Some SelectedTablesNotAvailable)
                      else Inr None)))"

text \<open>
  The tables of the new booking. Without requested ids they are those of a fresh
  availability search, and reading \<^verbatim>\<open>availability.tables\<close> of an unavailable answer
  throws; requested ids are taken as they are.
\<close>

definition assignTables :: "db \<Rightarrow> bookingRequest \<Rightarrow> bool \<Rightarrow> jsError + nat list" where
  "assignTables d req isStaff =
     (if req_tableIds req = []
      then
        (if \<not> isStaff
         then (case findAvailableTables d (req_date req) (requestStart req)
                      (requestEnd req) (req_partySize req) False of
                 Inr (Available ts cap) \<Rightarrow> Inr (map table_id ts)
               | Inr (Unavailable why) \<Rightarrow> Inl TypeError
               | Inl err \<Rightarrow> Inl err)
         else (case findAvailableTables d (req_date req) (requestStart req)
                      (requestEnd req) (req_partySize req) True of
                 Inr (Available ts cap) \<Rightarrow> Inr (map table_id ts)
               | Inr (Unavailable why) \<Rightarrow> Inl TypeError
               | Inl err \<Rightarrow> Inl err))
      else Inr (req_tableIds req))"

text \<open>A fresh identifier for the document \<^verbatim>\<open>Booking.create\<close> stores.\<close>

definition freshBookingId :: "booking list \<Rightarrow> nat" where
  "freshBookingId bs = Suc (foldl max 0 (map booking_id bs))"

definition bookingData :: "db \<Rightarrow> bookingRequest \<Rightarrow> bool \<Rightarrow> nat list \<Rightarrow> booking" where
  "bookingData d req isStaff assignedTableIds =
     \<lparr>booking_id = freshBookingId (db_bookings d),
      booking_customer =
        \<lparr>customer_userId = map_option user_id (req_user req),
         customer_name = req_customerName req,
         customer_email = req_customerEmail req,
         customer_phone = req_customerPhone req\<rparr>,
      booking_partySize = req_partySize req,
      booking_date = startOfDay (req_date req),
      timeSlot_start = requestStart req,
      timeSlot_end = requestEnd req,
      booking_duration = requestDuration req,
      booking_tables = assignedTableIds,
      booking_specialRequests = req_specialRequests req,
      booking_status = (if isStaff then Confirmed else Pending),
      booking_source = (if isStaff then Manual else Online),
      booking_createdBy = map_option user_id (req_user req)\<rparr>"

text \<open>
  The validators of the booking schema that \<^verbatim>\<open>Booking.create\<close> runs: required customer
  fields, the pattern of the e-mail address (the library's test), a party of at least 1
  and a duration of at least 15 minutes.
\<close>

definition schemaAccepts :: "library \<Rightarrow> booking \<Rightarrow> bool" where
  "schemaAccepts lib b =
     (customer_name (booking_customer b) \<noteq> []
      \<and> customer_email (booking_customer b) \<noteq> []
      \<and> emailMatches lib (customer_email (booking_customer b))
      \<and> customer_phone (booking_customer b) \<noteq> []
      \<and> 1 \<le> booking_partySize b
      \<and> 15 \<le> booking_duration b)"

text \<open>
  \<^verbatim>\<open>createBooking\<close>: the answer and the database after the request. An exception after
  the booking is stored (the cache rebuild) answers 500 and keeps the booking.
\<close>

definition createBooking ::
  "library \<Rightarrow> db \<Rightarrow> bookingRequest \<Rightarrow> (response \<times> db) option" where
  "createBooking lib d req =
     (if \<not> req_validationOk req then Some (BadRequest ValidationErrors, d)
      else
        (let isStaff = isStaffUser (req_user req) in
         case (if \<not> isStaff then customerChecks lib d req else Inr None) of
           Inl err \<Rightarrow> Some (ServerError, d)
         | Inr (Some why) \<Rightarrow> Some (BadRequest why, d)
         | Inr None \<Rightarrow>
             (case assignTables d req isStaff of
                Inl err \<Rightarrow> Some (ServerError, d)
              | Inr assignedTableIds \<Rightarrow>
                  (let b = bookingData d req isStaff assignedTableIds in
                   if \<not> schemaAccepts lib b then Some (ServerError, d)
                   else
                     (let d1 = d\<lparr>db_bookings := db_bookings d @ [b]\<rparr> in
                      case updateAvailabilityCache lib (req_date req) d1 of
                        None \<Rightarrow> None
                      | Some (Inl err) \<Rightarrow> Some (ServerError, d1)
                      | Some (Inr d2) \<Rightarrow> Some (Created b, d2))))))"

text \<open>The six status values of the schema, as the request spells them.\<close>

definition parseStatus :: "string \<Rightarrow> status option" where
  "parseStatus s =
     (if s = ''pending'' then Some Pending
      else if s = ''confirmed'' then Some Confirmed
      else if s = ''seated'' then Some Seated
      else if s = ''completed'' then Some Completed
      else if s = ''cancelled'' then Some Cancelled
      else if s = ''no-show'' then Some NoShow
      else None)"

text \<open>
  \<^verbatim>\<open>findByIdAndUpdate\<close> with \<^verbatim>\<open>{ status }\<close> changes the status of the document with the id.
\<close>

fun setStatusById :: "nat \<Rightarrow> status \<Rightarrow> booking list \<Rightarrow> booking list" where
  "setStatusById bid st [] = []"
| "setStatusById bid st (b # bs) =
     (if booking_id b = bid then b\<lparr>booking_status := st\<rparr> # bs
      else b # setStatusById bid st bs)"

text \<open>
  \<^verbatim>\<open>updateBookingStatus\<close>. The identifier is \<^verbatim>\<open>req.params.id\<close>: \<open>None\<close> is a text that
  is not an object id, at which the query throws a cast error; \<open>Some i\<close> is the object
  id \<open>i\<close>. The status is stored before the cache is rebuilt, so an exception of the
  rebuild answers 500 and keeps the new status.
\<close>

definition storeStatus :: "db \<Rightarrow> nat \<Rightarrow> status \<Rightarrow> db" where
  "storeStatus d i st = d\<lparr>db_bookings := setStatusById i st (db_bookings d)\<rparr>"

definition updateBookingStatus ::
  "library \<Rightarrow> db \<Rightarrow> nat option \<Rightarrow> string \<Rightarrow> (response \<times> db) option" where
  "updateBookingStatus lib d bid statusText =
     (case parseStatus statusText of
        None \<Rightarrow> Some (BadRequest InvalidStatusValue, d)
      | Some st \<Rightarrow>
          (case bid of
             None \<Rightarrow> Some (ServerError, d)
           | Some i \<Rightarrow>
               (case List.find (\<lambda>b. booking_id b = i) (db_bookings d) of
                  None \<Rightarrow> Some (NotFound, d)
                | Some old \<Rightarrow>
                    (let b = old\<lparr>booking_status := st\<rparr>;
                         d1 = storeStatus d i st
                     in if st = Cancelled \<or> st = NoShow
                        then (case updateAvailabilityCache lib (booking_date b) d1 of
                                None \<Rightarrow> None
                              | Some (Inl err) \<Rightarrow> Some (ServerError, d1)
                              | Some (Inr d2) \<Rightarrow> Some (Updated b, d2))
                        else Some (Updated b, d1)))))"

section \<open>Example data\<close>

definition exampleTable :: "nat \<Rightarrow> string \<Rightarrow> nat \<Rightarrow> table" where
  "exampleTable i n c =
     \<lparr>table_id = i, tableNumber = n, capacity = c, isActive = True, isReservable = True\<rparr>"

text \<open>
  The venue of the scenarios: open Wednesday to Saturday from 18:00 to 23:45, closed on
  the other days, with the tables A1 and A2 for two and A6 for six. Friday is
  1970-01-02 and Monday 1970-01-05 on the venue's clock.
\<close>

definition friday :: timestamp where
  "friday = 86400000"

definition monday :: timestamp where
  "monday = 345600000"

definition clock :: "nat \<Rightarrow> nat \<Rightarrow> timeOfDay" where
  "clock h m = \<lparr>hour = h, minute = m\<rparr>"

definition exampleDay :: "nat \<Rightarrow> bool \<Rightarrow> openingHoursEntry" where
  "exampleDay n c = \<lparr>day = n, open = ''18:00'', close = ''23:45'', isClosed = c\<rparr>"

text \<open>
  A library for the examples. Its e-mail test asks for an \<open>@\<close>, which agrees with the
  schema's pattern on the one address the examples use; the time texts of the examples
  all have the form \<^verbatim>\<open>HH:MM\<close>, so the two moment functions are never consulted.
\<close>

definition exampleLibrary :: library where
  "exampleLibrary =
     \<lparr>emailMatches = (\<lambda>s. CHR ''@'' \<in> set s),
      momentParse = (\<lambda>day s. None),
      momentSet = (\<lambda>date s. None)\<rparr>"

definition exampleRules :: bookingRules where
  "exampleRules = \<lparr>timeSlotDuration = 30, bufferBetweenBookings = 15, maxPartySize = 10,
                    maxCapacityThreshold = 90\<rparr>"

definition exampleRestaurant :: restaurant where
  "exampleRestaurant =
     \<lparr>openingHours = [exampleDay 0 True, exampleDay 1 True, exampleDay 2 True,
                      exampleDay 3 False, exampleDay 4 False, exampleDay 5 False,
                      exampleDay 6 False],
      maxCapacity = 100,
      bookingRules = exampleRules,
      closedDates = [],
      specialEvents = []\<rparr>"

definition exampleTables :: "table list" where
  "exampleTables = [exampleTable 1 ''A1'' 2, exampleTable 2 ''A2'' 2, exampleTable 6 ''A6'' 6]"

definition exampleDb :: "booking list \<Rightarrow> db" where
  "exampleDb bs =
     \<lparr>db_restaurant = Some exampleRestaurant, db_tables = exampleTables,
      db_bookings = bs, db_availability = Map.empty\<rparr>"

definition exampleCustomer :: customer where
  "exampleCustomer =
     \<lparr>customer_userId = None, customer_name = ''Ada'',
      customer_email = ''ada@example.org'', customer_phone = ''555-0100''\<rparr>"

text \<open>A booking on the Friday, from \<open>h1\<close>:00 to \<open>h2\<close>:00.\<close>

definition exampleBooking :: "nat \<Rightarrow> nat list \<Rightarrow> nat \<Rightarrow> nat \<Rightarrow> nat \<Rightarrow> status \<Rightarrow> booking" where
  "exampleBooking i ts n h1 h2 st =
     \<lparr>booking_id = i, booking_customer = exampleCustomer, booking_partySize = n,
      booking_date = friday,
      timeSlot_start = atTime friday (clock h1 0),
      timeSlot_end = atTime friday (clock h2 0),
      booking_duration = (int h2 - int h1) * 60,
      booking_tables = ts, booking_specialRequests = None,
      booking_status = st, booking_source = Online, booking_createdBy = None\<rparr>"



definition brunch :: specialEvent where
  "brunch = \<lparr>event_name = ''Brunch'', event_date = monday,
              customOpeningHours = \<lparr>custom_open = Some ''10:00'', custom_close = Some ''23:00''\<rparr>\<rparr>"

definition tasting :: "timestamp \<Rightarrow> specialEvent" where
  "tasting date = \<lparr>event_name = ''Tasting'', event_date = date,
                    customOpeningHours = \<lparr>custom_open = None, custom_close = None\<rparr>\<rparr>"


text \<open>
  Requests with the customer of the examples: who sends it (\<open>None\<close> is a guest), the
  date, the time, the duration, the party size and the requested table ids.
\<close>

definition exampleRequest ::
  "user option \<Rightarrow> timestamp \<Rightarrow> timeOfDay \<Rightarrow> int option \<Rightarrow> nat \<Rightarrow> nat list \<Rightarrow> bookingRequest" where
  "exampleRequest u date t dur n ids =
     \<lparr>req_validationOk = True, req_user = u,
      req_customerName = ''Ada'', req_customerEmail = ''ada@example.org'',
      req_customerPhone = ''555-0100'', req_partySize = n, req_date = date, req_time = t,
      req_duration = dur, req_tableIds = ids, req_specialRequests = None\<rparr>"

definition staffMember :: user where
  "staffMember = \<lparr>user_id = 7, user_role = Staff\<rparr>"

text \<open>
  A venue that is open overnight on Fridays, from 18:00 to 02:00, and on Saturdays from
  midnight to 23:45. Saturday is 1970-01-03.
\<close>

definition saturday :: timestamp where
  "saturday = 172800000"

definition lateRestaurant :: restaurant where
  "lateRestaurant =
     exampleRestaurant\<lparr>openingHours :=
       [exampleDay 0 True, exampleDay 1 True, exampleDay 2 True, exampleDay 3 False,
        exampleDay 4 False,
        \<lparr>day = 5, open = ''18:00'', close = ''02:00'', isClosed = False\<rparr>,
        \<lparr>day = 6, open = ''00:00'', close = ''23:45'', isClosed = False\<rparr>]\<rparr>"

definition lateDb :: "booking list \<Rightarrow> db" where
  "lateDb bs = (exampleDb bs)\<lparr>db_restaurant := Some lateRestaurant\<rparr>"

text \<open>
  A venue of 100 seats that takes online bookings up to 29 percent of them, with a
  table for twenty and a table for ten.
\<close>

definition hallRestaurant :: restaurant where
  "hallRestaurant =
     exampleRestaurant\<lparr>bookingRules := exampleRules\<lparr>maxCapacityThreshold := 29\<rparr>\<rparr>"

definition hallDb :: "booking list \<Rightarrow> db" where
  "hallDb bs =
     \<lparr>db_restaurant = Some hallRestaurant,
      db_tables = [exampleTable 1 ''B1'' 20, exampleTable 2 ''B2'' 10],
      db_bookings = bs, db_availability = Map.empty\<rparr>"

section \<open>Properties of the solver\<close>

lemma fold_tryCombination:
  assumes "0 < P"
  shows "((\<forall>c\<in>set cs. comboCapacity c < P) \<and> foldl (tryCombination P) ([], 0) cs = ([], 0))
       \<or> (\<exists>c\<in>set cs. foldl (tryCombination P) ([], 0) cs = (c, comboCapacity c)
             \<and> P \<le> comboCapacity c
             \<and> (\<forall>c'\<in>set cs. P \<le> comboCapacity c' \<longrightarrow> comboCapacity c \<le> comboCapacity c'))"
proof (induction cs rule: rev_induct)
  case Nil
  then show ?case by simp
next
  case (snoc x xs)
  then show ?case using assms
    by (auto simp: tryCombination_def Let_def not_le not_less)
qed

lemma in_concat_map: "x \<in> set (concat (map f xs)) \<longleftrightarrow> (\<exists>y\<in>set xs. x \<in> set (f y))"
  by auto

lemma in_map: "x \<in> set (map g ys) \<longleftrightarrow> (\<exists>y\<in>set ys. x = g y)"
  by auto

lemma in_upt: "j \<in> set [i + 1 ..< n] \<longleftrightarrow> i < j \<and> j < n"
  by auto

lemma in_pairCombinations:
  "c \<in> set (pairCombinations ts) \<longleftrightarrow> (\<exists>i j. i < j \<and> j < length ts \<and> c = [ts ! i, ts ! j])"
proof
  assume "c \<in> set (pairCombinations ts)"
  then have "\<exists>i\<in>set [0 ..< length ts]. \<exists>j\<in>set [i + 1 ..< length ts]. c = [ts ! i, ts ! j]"
    unfolding pairCombinations_def in_concat_map in_map .
  then obtain i j where "j \<in> set [i + 1 ..< length ts]" "c = [ts ! i, ts ! j]"
    by blast
  then have "i < j \<and> j < length ts \<and> c = [ts ! i, ts ! j]"
    unfolding in_upt by simp
  then show "\<exists>i j. i < j \<and> j < length ts \<and> c = [ts ! i, ts ! j]"
    by blast
next
  assume "\<exists>i j. i < j \<and> j < length ts \<and> c = [ts ! i, ts ! j]"
  then obtain i j where ij: "i < j" "j < length ts" "c = [ts ! i, ts ! j]" by blast
  have "j \<in> set [i + 1 ..< length ts]" "i \<in> set [0 ..< length ts]"
    using ij(1,2) by simp_all
  then have "\<exists>i\<in>set [0 ..< length ts]. \<exists>j\<in>set [i + 1 ..< length ts]. c = [ts ! i, ts ! j]"
    using ij(3) by blast
  then show "c \<in> set (pairCombinations ts)"
    unfolding pairCombinations_def in_concat_map in_map .
qed

lemma in_tripleCombinations:
  "c \<in> set (tripleCombinations ts) \<longleftrightarrow>
     (\<exists>i j k. i < j \<and> j < k \<and> k < length ts \<and> c = [ts ! i, ts ! j, ts ! k])"
proof
  assume "c \<in> set (tripleCombinations ts)"
  then have "\<exists>i\<in>set [0 ..< length ts]. \<exists>j\<in>set [i + 1 ..< length ts].
      \<exists>k\<in>set [j + 1 ..< length ts]. c = [ts ! i, ts ! j, ts ! k]"
    unfolding tripleCombinations_def in_concat_map in_map .
  then obtain i j k where "j \<in> set [i + 1 ..< length ts]" "k \<in> set [j + 1 ..< length ts]"
      "c = [ts ! i, ts ! j, ts ! k]"
    by blast
  then have "i < j \<and> j < k \<and> k < length ts \<and> c = [ts ! i, ts ! j, ts ! k]"
    unfolding in_upt by simp
  then show "\<exists>i j k. i < j \<and> j < k \<and> k < length ts \<and> c = [ts ! i, ts ! j, ts ! k]"
    by blast
next
  assume "\<exists>i j k. i < j \<and> j < k \<and> k < length ts \<and> c = [ts ! i, ts ! j, ts ! k]"
  then obtain i j k where ijk: "i < j" "j < k" "k < length ts" "c = [ts ! i, ts ! j, ts ! k]"
    by blast
  have "k \<in> set [j + 1 ..< length ts]" "j \<in> set [i + 1 ..< length ts]"
      "i \<in> set [0 ..< length ts]"
    using ijk(1,2,3) by simp_all
  then have "\<exists>i\<in>set [0 ..< length ts]. \<exists>j\<in>set [i + 1 ..< length ts].
      \<exists>k\<in>set [j + 1 ..< length ts]. c = [ts ! i, ts ! j, ts ! k]"
    using ijk(4) by blast
  then show "c \<in> set (tripleCombinations ts)"
    unfolding tripleCombinations_def in_concat_map in_map .
qed

lemma hd_sort_key_min:
  assumes "xs \<noteq> []"
  shows "hd (sort_key f xs) \<in> set xs \<and> (\<forall>x\<in>set xs. f (hd (sort_key f xs)) \<le> f x)"
proof -
  have ne: "sort_key f xs \<noteq> []" using assms by (metis length_sort length_0_conv)
  then obtain y ys where eq: "sort_key f xs = y # ys" by (cases "sort_key f xs") auto
  have "sorted (map f (sort_key f xs))" by (rule sorted_sort_key)
  then have "\<forall>z\<in>set ys. f y \<le> f z" by (simp add: eq)
  moreover have "set (y # ys) = set xs" using eq by (metis set_sort)
  ultimately show ?thesis by (auto simp: eq)
qed

lemma findBest_exact:
  assumes "\<exists>t\<in>set ts. capacity t = P"
  shows "\<exists>t\<in>set ts. capacity t = P \<and> findBestTableCombination ts P = [t]"
proof -
  from assms obtain t where "List.find (\<lambda>t. capacity t = P) ts = Some t"
    by (cases "List.find (\<lambda>t. capacity t = P) ts") (auto simp: find_None_iff)
  moreover from this have "t \<in> set ts" "capacity t = P"
    by (auto simp: find_Some_iff)
  ultimately show ?thesis
    by (auto simp: findBestTableCombination_def)
qed

lemma findBest_smallest:
  assumes "\<forall>t\<in>set ts. capacity t \<noteq> P" and "\<exists>t\<in>set ts. P \<le> capacity t"
  shows "\<exists>t\<in>set ts. P \<le> capacity t \<and> (\<forall>u\<in>set ts. P \<le> capacity u \<longrightarrow> capacity t \<le> capacity u)
           \<and> findBestTableCombination ts P = [t]"
proof -
  let ?suitable = "filter (\<lambda>t. P \<le> capacity t) ts"
  have none: "List.find (\<lambda>t. capacity t = P) ts = None"
    using assms(1) by (simp add: find_None_iff)
  have ne: "?suitable \<noteq> []"
    using assms(2) by (auto simp: filter_empty_conv)
  have res: "findBestTableCombination ts P = [hd (sort_key capacity ?suitable)]"
    using none ne by (simp add: findBestTableCombination_def)
  from hd_sort_key_min[OF ne, of capacity]
  have "hd (sort_key capacity ?suitable) \<in> set ?suitable"
    and "\<forall>x\<in>set ?suitable. capacity (hd (sort_key capacity ?suitable)) \<le> capacity x"
    by blast+
  then show ?thesis using res by auto
qed

lemma findBest_combine:
  assumes "0 < P" and "\<forall>t\<in>set ts. capacity t < P"
  shows "findBestTableCombination ts P =
     (let best2 = foldl (tryCombination P) ([], 0) (pairCombinations ts)
      in if fst best2 = [] then fst (foldl (tryCombination P) best2 (tripleCombinations ts))
         else fst best2)"
proof -
  have none: "List.find (\<lambda>t. capacity t = P) ts = None"
    using assms(2) by (auto simp: find_None_iff)
  have emp: "filter (\<lambda>t. P \<le> capacity t) ts = []"
    using assms(2) by (auto simp: filter_empty_conv not_le)
  show ?thesis
    using none emp by (simp add: findBestTableCombination_def Let_def)
qed

lemma findBest_pair:
  assumes "0 < P" and "\<forall>t\<in>set ts. capacity t < P"
    and "\<exists>i j. i < j \<and> j < length ts \<and> P \<le> capacity (ts ! i) + capacity (ts ! j)"
  shows "\<exists>i j. i < j \<and> j < length ts \<and> P \<le> capacity (ts ! i) + capacity (ts ! j)
           \<and> (\<forall>i' j'. i' < j' \<and> j' < length ts \<and> P \<le> capacity (ts ! i') + capacity (ts ! j')
                 \<longrightarrow> capacity (ts ! i) + capacity (ts ! j) \<le> capacity (ts ! i') + capacity (ts ! j'))
           \<and> findBestTableCombination ts P = [ts ! i, ts ! j]"
proof -
  let ?best2 = "foldl (tryCombination P) ([], 0) (pairCombinations ts)"
  from assms(3) obtain i0 j0 where q: "i0 < j0" "j0 < length ts"
      "P \<le> capacity (ts ! i0) + capacity (ts ! j0)" by blast
  then have "[ts ! i0, ts ! j0] \<in> set (pairCombinations ts)"
    unfolding in_pairCombinations by blast
  moreover have "P \<le> comboCapacity [ts ! i0, ts ! j0]"
    using q by (simp add: comboCapacity_def)
  ultimately have "\<not> (\<forall>c\<in>set (pairCombinations ts). comboCapacity c < P)"
    by (auto simp: not_less)
  with fold_tryCombination[OF assms(1), of "pairCombinations ts"]
  obtain c where c: "c \<in> set (pairCombinations ts)" "?best2 = (c, comboCapacity c)"
      "P \<le> comboCapacity c"
      "\<forall>c'\<in>set (pairCombinations ts). P \<le> comboCapacity c' \<longrightarrow> comboCapacity c \<le> comboCapacity c'"
    by blast
  from c(1) obtain i j where ij: "i < j" "j < length ts" "c = [ts ! i, ts ! j]"
    by (auto simp: in_pairCombinations)
  have res: "findBestTableCombination ts P = [ts ! i, ts ! j]"
    using findBest_combine[OF assms(1,2)] c(2) ij(3) by simp
  have minimal: "capacity (ts ! i) + capacity (ts ! j) \<le> capacity (ts ! i') + capacity (ts ! j')"
    if "i' < j'" "j' < length ts" "P \<le> capacity (ts ! i') + capacity (ts ! j')" for i' j'
  proof -
    have "[ts ! i', ts ! j'] \<in> set (pairCombinations ts)"
      unfolding in_pairCombinations using that by blast
    moreover have "P \<le> comboCapacity [ts ! i', ts ! j']"
      using that by (simp add: comboCapacity_def)
    ultimately have "comboCapacity c \<le> comboCapacity [ts ! i', ts ! j']"
      using c(4) by blast
    then show ?thesis by (simp add: ij(3) comboCapacity_def)
  qed
  have sat: "P \<le> capacity (ts ! i) + capacity (ts ! j)"
    using c(3) by (simp add: ij(3) comboCapacity_def)
  show ?thesis
    by (rule exI[of _ i], rule exI[of _ j]) (use ij(1,2) res sat minimal in simp)
qed

lemma no_pair_best2:
  assumes "0 < P"
    and "\<forall>i j. i < j \<and> j < length ts \<longrightarrow> capacity (ts ! i) + capacity (ts ! j) < P"
  shows "foldl (tryCombination P) ([], 0) (pairCombinations ts) = ([], 0)"
proof -
  have "\<forall>c\<in>set (pairCombinations ts). comboCapacity c < P"
    using assms(2) by (auto simp: in_pairCombinations comboCapacity_def)
  with fold_tryCombination[OF assms(1), of "pairCombinations ts"] show ?thesis
    by (auto simp: not_le)
qed

lemma findBest_triple:
  assumes "0 < P" and "\<forall>t\<in>set ts. capacity t < P"
    and "\<forall>i j. i < j \<and> j < length ts \<longrightarrow> capacity (ts ! i) + capacity (ts ! j) < P"
    and "\<exists>i j k. i < j \<and> j < k \<and> k < length ts
           \<and> P \<le> capacity (ts ! i) + capacity (ts ! j) + capacity (ts ! k)"
  shows "\<exists>i j k. i < j \<and> j < k \<and> k < length ts
           \<and> P \<le> capacity (ts ! i) + capacity (ts ! j) + capacity (ts ! k)
           \<and> (\<forall>i' j' k'. i' < j' \<and> j' < k' \<and> k' < length ts
                 \<and> P \<le> capacity (ts ! i') + capacity (ts ! j') + capacity (ts ! k')
                 \<longrightarrow> capacity (ts ! i) + capacity (ts ! j) + capacity (ts ! k)
                       \<le> capacity (ts ! i') + capacity (ts ! j') + capacity (ts ! k'))
           \<and> findBestTableCombination ts P = [ts ! i, ts ! j, ts ! k]"
proof -
  let ?best3 = "foldl (tryCombination P) ([], 0) (tripleCombinations ts)"
  have res0: "findBestTableCombination ts P = fst ?best3"
    using findBest_combine[OF assms(1,2)] no_pair_best2[OF assms(1,3)] by simp
  from assms(4) obtain i0 j0 k0 where q: "i0 < j0" "j0 < k0" "k0 < length ts"
      "P \<le> capacity (ts ! i0) + capacity (ts ! j0) + capacity (ts ! k0)" by blast
  then have "[ts ! i0, ts ! j0, ts ! k0] \<in> set (tripleCombinations ts)"
    unfolding in_tripleCombinations by blast
  moreover have "P \<le> comboCapacity [ts ! i0, ts ! j0, ts ! k0]"
    using q by (simp add: comboCapacity_def)
  ultimately have "\<not> (\<forall>c\<in>set (tripleCombinations ts). comboCapacity c < P)"
    by (auto simp: not_less)
  with fold_tryCombination[OF assms(1), of "tripleCombinations ts"]
  obtain c where c: "c \<in> set (tripleCombinations ts)" "?best3 = (c, comboCapacity c)"
      "P \<le> comboCapacity c"
      "\<forall>c'\<in>set (tripleCombinations ts). P \<le> comboCapacity c' \<longrightarrow> comboCapacity c \<le> comboCapacity c'"
    by blast
  from c(1) obtain i j k where ijk: "i < j" "j < k" "k < length ts" "c = [ts ! i, ts ! j, ts ! k]"
    by (auto simp: in_tripleCombinations)
  have res: "findBestTableCombination ts P = [ts ! i, ts ! j, ts ! k]"
    using res0 c(2) ijk(4) by simp
  have minimal: "capacity (ts ! i) + capacity (ts ! j) + capacity (ts ! k)
        \<le> capacity (ts ! i') + capacity (ts ! j') + capacity (ts ! k')"
    if "i' < j'" "j' < k'" "k' < length ts"
       "P \<le> capacity (ts ! i') + capacity (ts ! j') + capacity (ts ! k')" for i' j' k'
  proof -
    have "[ts ! i', ts ! j', ts ! k'] \<in> set (tripleCombinations ts)"
      unfolding in_tripleCombinations using that by blast
    moreover have "P \<le> comboCapacity [ts ! i', ts ! j', ts ! k']"
      using that by (simp add: comboCapacity_def)
    ultimately have "comboCapacity c \<le> comboCapacity [ts ! i', ts ! j', ts ! k']"
      using c(4) by blast
    then show ?thesis by (simp add: ijk(4) comboCapacity_def)
  qed
  have sat: "P \<le> capacity (ts ! i) + capacity (ts ! j) + capacity (ts ! k)"
    using c(3) by (simp add: ijk(4) comboCapacity_def)
  show ?thesis
    by (rule exI[of _ i], rule exI[of _ j], rule exI[of _ k])
       (use ijk(1,2,3) res sat minimal in simp)
qed

lemma findBest_none:
  assumes "0 < P" and "\<forall>t\<in>set ts. capacity t < P"
    and "\<forall>i j. i < j \<and> j < length ts \<longrightarrow> capacity (ts ! i) + capacity (ts ! j) < P"
    and "\<forall>i j k. i < j \<and> j < k \<and> k < length ts
           \<longrightarrow> capacity (ts ! i) + capacity (ts ! j) + capacity (ts ! k) < P"
  shows "findBestTableCombination ts P = []"
proof -
  have "\<forall>c\<in>set (tripleCombinations ts). comboCapacity c < P"
    using assms(4) by (auto simp: in_tripleCombinations comboCapacity_def add.assoc)
  with fold_tryCombination[OF assms(1), of "tripleCombinations ts"]
  have "foldl (tryCombination P) ([], 0) (tripleCombinations ts) = ([], 0)"
    by (auto simp: not_le)
  then show ?thesis
    using findBest_combine[OF assms(1,2)] no_pair_best2[OF assms(1,3)] by simp
qed

text \<open>
  C5. For a party of at least one person the solver applies its policy in strict order:
  a table of exactly the party's size if there is one; otherwise a single table of
  minimum capacity among those that seat the party; otherwise, when no single table
  seats the party, a pair of tables at two different positions of the candidate list
  whose combined capacity seats the party and is minimal among such pairs; a triple,
  with the same minimality, only when no pair seats the party; and the empty list when
  no single table, pair or triple does.
\<close>

theorem findBestTableCombination_policy:
  assumes "1 \<le> P"
  shows "((\<exists>t\<in>set ts. capacity t = P) \<longrightarrow>
            (\<exists>t\<in>set ts. capacity t = P \<and> findBestTableCombination ts P = [t]))
       \<and> ((\<forall>t\<in>set ts. capacity t \<noteq> P) \<and> (\<exists>t\<in>set ts. P \<le> capacity t) \<longrightarrow>
            (\<exists>t\<in>set ts. P \<le> capacity t
               \<and> (\<forall>u\<in>set ts. P \<le> capacity u \<longrightarrow> capacity t \<le> capacity u)
               \<and> findBestTableCombination ts P = [t]))
       \<and> ((\<forall>t\<in>set ts. capacity t < P)
            \<and> (\<exists>i j. i < j \<and> j < length ts \<and> P \<le> capacity (ts ! i) + capacity (ts ! j)) \<longrightarrow>
            (\<exists>i j. i < j \<and> j < length ts \<and> P \<le> capacity (ts ! i) + capacity (ts ! j)
               \<and> (\<forall>i' j'. i' < j' \<and> j' < length ts
                     \<and> P \<le> capacity (ts ! i') + capacity (ts ! j')
                     \<longrightarrow> capacity (ts ! i) + capacity (ts ! j)
                           \<le> capacity (ts ! i') + capacity (ts ! j'))
               \<and> findBestTableCombination ts P = [ts ! i, ts ! j]))
       \<and> ((\<forall>t\<in>set ts. capacity t < P)
            \<and> (\<forall>i j. i < j \<and> j < length ts \<longrightarrow> capacity (ts ! i) + capacity (ts ! j) < P)
            \<and> (\<exists>i j k. i < j \<and> j < k \<and> k < length ts
                  \<and> P \<le> capacity (ts ! i) + capacity (ts ! j) + capacity (ts ! k)) \<longrightarrow>
            (\<exists>i j k. i < j \<and> j < k \<and> k < length ts
               \<and> P \<le> capacity (ts ! i) + capacity (ts ! j) + capacity (ts ! k)
               \<and> (\<forall>i' j' k'. i' < j' \<and> j' < k' \<and> k' < length ts
                     \<and> P \<le> capacity (ts ! i') + capacity (ts ! j') + capacity (ts ! k')
                     \<longrightarrow> capacity (ts ! i) + capacity (ts ! j) + capacity (ts ! k)
                           \<le> capacity (ts ! i') + capacity (ts ! j') + capacity (ts ! k'))
               \<and> findBestTableCombination ts P = [ts ! i, ts ! j, ts ! k]))
       \<and> ((\<forall>t\<in>set ts. capacity t < P)
            \<and> (\<forall>i j. i < j \<and> j < length ts \<longrightarrow> capacity (ts ! i) + capacity (ts ! j) < P)
            \<and> (\<forall>i j k. i < j \<and> j < k \<and> k < length ts
                  \<longrightarrow> capacity (ts ! i) + capacity (ts ! j) + capacity (ts ! k) < P) \<longrightarrow>
            findBestTableCombination ts P = [])"
proof -
  have pos: "0 < P" using assms by simp
  show ?thesis
  proof (intro conjI impI)
    assume "\<exists>t\<in>set ts. capacity t = P"
    then show "\<exists>t\<in>set ts. capacity t = P \<and> findBestTableCombination ts P = [t]"
      by (rule findBest_exact)
  next
    assume "(\<forall>t\<in>set ts. capacity t \<noteq> P) \<and> (\<exists>t\<in>set ts. P \<le> capacity t)"
    then show "\<exists>t\<in>set ts. P \<le> capacity t
        \<and> (\<forall>u\<in>set ts. P \<le> capacity u \<longrightarrow> capacity t \<le> capacity u)
        \<and> findBestTableCombination ts P = [t]"
      using findBest_smallest[of ts P] by blast
  next
    assume "(\<forall>t\<in>set ts. capacity t < P)
        \<and> (\<exists>i j. i < j \<and> j < length ts \<and> P \<le> capacity (ts ! i) + capacity (ts ! j))"
    then show "\<exists>i j. i < j \<and> j < length ts \<and> P \<le> capacity (ts ! i) + capacity (ts ! j)
        \<and> (\<forall>i' j'. i' < j' \<and> j' < length ts
              \<and> P \<le> capacity (ts ! i') + capacity (ts ! j')
              \<longrightarrow> capacity (ts ! i) + capacity (ts ! j)
                    \<le> capacity (ts ! i') + capacity (ts ! j'))
        \<and> findBestTableCombination ts P = [ts ! i, ts ! j]"
      using findBest_pair[OF pos, of ts] by simp
  next
    assume "(\<forall>t\<in>set ts. capacity t < P)
        \<and> (\<forall>i j. i < j \<and> j < length ts \<longrightarrow> capacity (ts ! i) + capacity (ts ! j) < P)
        \<and> (\<exists>i j k. i < j \<and> j < k \<and> k < length ts
              \<and> P \<le> capacity (ts ! i) + capacity (ts ! j) + capacity (ts ! k))"
    then show "\<exists>i j k. i < j \<and> j < k \<and> k < length ts
        \<and> P \<le> capacity (ts ! i) + capacity (ts ! j) + capacity (ts ! k)
        \<and> (\<forall>i' j' k'. i' < j' \<and> j' < k' \<and> k' < length ts
              \<and> P \<le> capacity (ts ! i') + capacity (ts ! j') + capacity (ts ! k')
              \<longrightarrow> capacity (ts ! i) + capacity (ts ! j) + capacity (ts ! k)
                    \<le> capacity (ts ! i') + capacity (ts ! j') + capacity (ts ! k'))
        \<and> findBestTableCombination ts P = [ts ! i, ts ! j, ts ! k]"
      using findBest_triple[OF pos, of ts] by simp
  next
    assume "(\<forall>t\<in>set ts. capacity t < P)
        \<and> (\<forall>i j. i < j \<and> j < length ts \<longrightarrow> capacity (ts ! i) + capacity (ts ! j) < P)
        \<and> (\<forall>i j k. i < j \<and> j < k \<and> k < length ts
              \<longrightarrow> capacity (ts ! i) + capacity (ts ! j) + capacity (ts ! k) < P)"
    then show "findBestTableCombination ts P = []"
      using findBest_none[OF pos, of ts] by simp
  qed
qed

theorem findBestTableCombination_policy_witness:
  "(1::nat) \<le> 6
   \<and> findBestTableCombination
        [exampleTable 1 ''A1'' 2, exampleTable 2 ''A2'' 2, exampleTable 6 ''A6'' 6] 6
       = [exampleTable 6 ''A6'' 6]
   \<and> findBestTableCombination
        [exampleTable 6 ''A6'' 6, exampleTable 4 ''A4'' 4, exampleTable 1 ''A1'' 2] 3
       = [exampleTable 4 ''A4'' 4]
   \<and> findBestTableCombination [exampleTable 1 ''A1'' 2, exampleTable 2 ''A2'' 2] 4
       = [exampleTable 1 ''A1'' 2, exampleTable 2 ''A2'' 2]
   \<and> findBestTableCombination
        [exampleTable 1 ''A1'' 2, exampleTable 2 ''A2'' 2, exampleTable 3 ''A3'' 2] 6
       = [exampleTable 1 ''A1'' 2, exampleTable 2 ''A2'' 2, exampleTable 3 ''A3'' 2]
   \<and> findBestTableCombination [exampleTable 1 ''A1'' 2] 4 = []"
proof -
  let ?a = "[exampleTable 1 ''A1'' 2, exampleTable 2 ''A2'' 2, exampleTable 6 ''A6'' 6]"
  let ?b = "[exampleTable 6 ''A6'' 6, exampleTable 4 ''A4'' 4, exampleTable 1 ''A1'' 2]"
  let ?e = "[exampleTable 1 ''A1'' 2]"
  have exact: "findBestTableCombination ?a 6 = [exampleTable 6 ''A6'' 6]"
    using findBestTableCombination_policy[of 6 ?a] by (auto simp: exampleTable_def)
  have smallest: "findBestTableCombination ?b 3 = [exampleTable 4 ''A4'' 4]"
    using findBestTableCombination_policy[of 3 ?b] by (auto simp: exampleTable_def)
  have empty: "findBestTableCombination ?e 4 = []"
    using findBestTableCombination_policy[of 4 ?e] by (simp add: exampleTable_def)
  have pair: "findBestTableCombination [exampleTable 1 ''A1'' 2, exampleTable 2 ''A2'' 2] 4
       = [exampleTable 1 ''A1'' 2, exampleTable 2 ''A2'' 2]"
    by code_simp
  have triple: "findBestTableCombination
        [exampleTable 1 ''A1'' 2, exampleTable 2 ''A2'' 2, exampleTable 3 ''A3'' 2] 6
       = [exampleTable 1 ''A1'' 2, exampleTable 2 ''A2'' 2, exampleTable 3 ''A3'' 2]"
    by code_simp
  show ?thesis by (intro conjI exact smallest pair triple empty) simp
qed

section \<open>Properties of the overlap query\<close>

lemma overlapping_drop_touching:
  assumes "timeSlot_end b = startTime \<or> timeSlot_start b = endTime"
  shows "overlappingBookings (bs1 @ b # bs2) date startTime endTime
       = overlappingBookings (bs1 @ bs2) date startTime endTime"
  using assms by (auto simp: overlappingBookings_def)

lemma findAvailableTables_bookings_cong:
  assumes "overlappingBookings bs date startTime endTime
         = overlappingBookings bs' date startTime endTime"
  shows "findAvailableTables (d\<lparr>db_bookings := bs\<rparr>) date startTime endTime partySize isStaff
       = findAvailableTables (d\<lparr>db_bookings := bs'\<rparr>) date startTime endTime partySize isStaff"
proof -
  have sel: "db_bookings (d\<lparr>db_bookings := x\<rparr>) = x"
    "db_restaurant (d\<lparr>db_bookings := x\<rparr>) = db_restaurant d"
    "db_tables (d\<lparr>db_bookings := x\<rparr>) = db_tables d" for x
    by simp_all
  show ?thesis
    unfolding findAvailableTables_def sel assms by (rule refl)
qed

text \<open>
  C6. The overlap query is half-open: a booking that ends exactly when the requested
  window starts, or starts exactly when it ends, is not among the overlapping
  bookings, and the answer of the table search is the one it would be without that
  booking, so its tables stay candidates.
\<close>

theorem touching_booking_is_no_overlap:
  assumes "timeSlot_end b = startTime \<or> timeSlot_start b = endTime"
  shows "b \<notin> set (overlappingBookings bs date startTime endTime)
       \<and> overlappingBookings (bs1 @ b # bs2) date startTime endTime
           = overlappingBookings (bs1 @ bs2) date startTime endTime
       \<and> findAvailableTables (d\<lparr>db_bookings := bs1 @ b # bs2\<rparr>) date startTime endTime
             partySize isStaff
           = findAvailableTables (d\<lparr>db_bookings := bs1 @ bs2\<rparr>) date startTime endTime
               partySize isStaff"
proof (intro conjI)
  show "b \<notin> set (overlappingBookings bs date startTime endTime)"
    using assms by (auto simp: overlappingBookings_def)
  show ovl: "overlappingBookings (bs1 @ b # bs2) date startTime endTime
           = overlappingBookings (bs1 @ bs2) date startTime endTime"
    by (rule overlapping_drop_touching[OF assms])
  show "findAvailableTables (d\<lparr>db_bookings := bs1 @ b # bs2\<rparr>) date startTime endTime
             partySize isStaff
           = findAvailableTables (d\<lparr>db_bookings := bs1 @ bs2\<rparr>) date startTime endTime
               partySize isStaff"
    by (rule findAvailableTables_bookings_cong[OF ovl])
qed

lemma bitLength_0: "bitLength 0 = 0"
  by (simp add: bitLength.simps)

lemma bitLength_pos: "0 < n \<Longrightarrow> bitLength n = Suc (bitLength (n div 2))"
  by (subst bitLength.simps) simp

lemmas double_eval = toDouble_def binaryExponent_def roundHalfEven_def
  bitLength_0 bitLength_pos

lemma toDouble_90_percent: "toDouble 90 100 = (8106479329266893, -53)"
  by (simp add: double_eval)

lemma toDouble_90_seats:
  "toDouble 810647932926689300 9007199254740992 = (6333186975989760, -46)"
  by (simp add: double_eval)

lemma maxAllowed_example: "maxAllowed 100 90 = 90"
  by (simp add: maxAllowed_def toDouble_90_percent toDouble_90_seats)

lemmas example_defs = exampleDb_def exampleTables_def exampleTable_def exampleRestaurant_def
  exampleRules_def exampleDay_def exampleBooking_def exampleCustomer_def clock_def friday_def
  monday_def

lemmas time_defs = atTime_def startOfDay_def endOfDay_def sameDay_def dayOfWeek_def
  msPerDay_def msPerMinute_def setTime_def

lemma solver_A6: "findBestTableCombination
     [exampleTable 1 ''A1'' 2, exampleTable 2 ''A2'' 2, exampleTable 6 ''A6'' 6] 6
   = [exampleTable 6 ''A6'' 6]"
  by (simp add: findBestTableCombination_def exampleTable_def)

lemma ex_free: "findAvailableTables (exampleDb []) friday (atTime friday (clock 21 0))
         (atTime friday (clock 23 0)) 6 False = Inr (Available [exampleTable 6 ''A6'' 6] 6)"
  by (simp add: findAvailableTables_def overlappingBookings_def bookedTableIds_def
      currentBookedPeople_def comboCapacity_def maxAllowed_example
      findBestTableCombination_def example_defs)

theorem touching_booking_is_no_overlap_witness:
  "timeSlot_end (exampleBooking 1 [6] 6 19 21 Confirmed) = atTime friday (clock 21 0)
   \<and> exampleBooking 1 [6] 6 19 21 Confirmed
        \<notin> set (overlappingBookings [exampleBooking 1 [6] 6 19 21 Confirmed] friday
                 (atTime friday (clock 21 0)) (atTime friday (clock 23 0)))
   \<and> findAvailableTables (exampleDb [exampleBooking 1 [6] 6 19 21 Confirmed]) friday
        (atTime friday (clock 21 0)) (atTime friday (clock 23 0)) 6 False
       = Inr (Available [exampleTable 6 ''A6'' 6] 6)"
proof -
  let ?b = "exampleBooking 1 [6] 6 19 21 Confirmed"
  let ?s = "atTime friday (clock 21 0)"
  let ?e = "atTime friday (clock 23 0)"
  have c1: "timeSlot_end ?b = ?s"
    by (simp add: exampleBooking_def)
  then have touch: "timeSlot_end ?b = ?s \<or> timeSlot_start ?b = ?e"
    by (rule disjI1)
  note t = touching_booking_is_no_overlap[OF touch, of "[?b]" friday "[]" "[]" "exampleDb []" 6 False]
  have upd: "(exampleDb [])\<lparr>db_bookings := bs\<rparr> = exampleDb bs" for bs
    by (simp add: exampleDb_def)
  have c2: "?b \<notin> set (overlappingBookings [?b] friday ?s ?e)"
    using t by (rule conjunct1)
  have "findAvailableTables (exampleDb [?b]) friday ?s ?e 6 False
      = findAvailableTables (exampleDb []) friday ?s ?e 6 False"
    using t by (simp add: upd)
  then have c3: "findAvailableTables (exampleDb [?b]) friday ?s ?e 6 False
      = Inr (Available [exampleTable 6 ''A6'' 6] 6)"
    by (simp only: ex_free)
  show ?thesis by (intro conjI c1 c2 c3)
qed

section \<open>Properties of the open check\<close>

lemmas text_defs = clockOf_def isDigit_def digitValue_def jsLess_def momentAt_def
  clockMoment_def






section \<open>Properties of the availability cache\<close>

lemma div_nonpos_iff:
  assumes "0 < (m::int)"
  shows "(e - c) div m \<le> 0 \<longleftrightarrow> e < c + m"
proof -
  have "0 < (e - c) div m \<longleftrightarrow> m \<le> e - c"
    by (rule pos_imp_zdiv_pos_iff[OF assms])
  then show ?thesis by linarith
qed

lemma div_shift:
  assumes "0 < (m::int)"
  shows "(e - c) div m = (e - (c + m)) div m + 1"
proof -
  have eq: "(e - (c + m)) + m = e - c" by simp
  have "((e - (c + m)) + m) div m = (e - (c + m)) div m + 1"
    using assms by (intro div_add_self2) simp
  then show ?thesis by (simp only: eq)
qed

lemma div_nonneg_after:
  assumes "0 < (m::int)" and "c + m \<le> e"
  shows "0 \<le> (e - (c + m)) div m"
  using assms by (simp add: div_int_pos_iff)

lemma slotPartition_done:
  assumes "0 < slotMs" and "endDateTime < cur + slotMs"
  shows "slotPartition cur endDateTime slotMs = []"
  using assms by (simp add: slotPartition_def div_nonpos_iff)

lemma slotPartition_step:
  assumes "0 < slotMs" and "cur + slotMs \<le> endDateTime"
  shows "slotPartition cur endDateTime slotMs
       = (cur, cur + slotMs) # slotPartition (cur + slotMs) endDateTime slotMs"
proof -
  let ?n = "nat ((endDateTime - (cur + slotMs)) div slotMs)"
  have n: "nat ((endDateTime - cur) div slotMs) = Suc ?n"
    using div_shift[OF assms(1), of endDateTime cur] div_nonneg_after[OF assms] by simp
  have "map (\<lambda>k. (cur + int k * slotMs, cur + (int k + 1) * slotMs)) [0 ..< Suc ?n]
      = (cur, cur + slotMs)
        # map (\<lambda>k. (cur + slotMs + int k * slotMs, cur + slotMs + (int k + 1) * slotMs)) [0 ..< ?n]"
    by (simp add: upt_conv_Cons map_Suc_upt[symmetric] algebra_simps del: upt_Suc)
  then show ?thesis
    unfolding slotPartition_def n by simp
qed

lemma generateSlots_total:
  assumes "0 < slotMs"
  shows "generateSlots cur endDateTime slotMs acc
       = Some (acc @ slotPartition cur endDateTime slotMs)"
proof (induction "nat ((endDateTime - cur) div slotMs)" arbitrary: cur acc)
  case 0
  then have "(endDateTime - cur) div slotMs \<le> 0" by simp
  then have lt: "endDateTime < cur + slotMs"
    using assms by (simp add: div_nonpos_iff)
  then show ?case
    by (subst generateSlots.simps) (simp add: slotPartition_done[OF assms lt])
next
  case (Suc n)
  then have "\<not> (endDateTime - cur) div slotMs \<le> 0" by linarith
  then have le: "cur + slotMs \<le> endDateTime"
    using assms by (simp add: div_nonpos_iff)
  from Suc(2) div_shift[OF assms, of endDateTime cur]
  have "n = nat ((endDateTime - (cur + slotMs)) div slotMs)" by linarith
  from Suc(1)[OF this]
  have "generateSlots (cur + slotMs) endDateTime slotMs (acc @ [(cur, cur + slotMs)])
      = Some ((acc @ [(cur, cur + slotMs)]) @ slotPartition (cur + slotMs) endDateTime slotMs)" .
  moreover have "cur < endDateTime" using le assms by linarith
  ultimately show ?case
    using le by (subst generateSlots.simps) (simp add: slotPartition_step[OF assms le])
qed

lemma fold_upd_apply:
  "fold (\<lambda>t c. c(k t \<mapsto> v t)) ts c x
     = (case map_of (rev (map (\<lambda>t. (k t, v t)) ts)) x of None \<Rightarrow> c x | Some y \<Rightarrow> Some y)"
proof (induction ts arbitrary: c)
  case Nil
  then show ?case by simp
next
  case (Cons t ts)
  show ?case
    unfolding fold_Cons comp_apply Cons.IH
    by (simp add: map_add_def split: option.splits)
qed

lemma fold_upd_idem:
  "fold (\<lambda>t c. c(k t \<mapsto> v t)) ts (fold (\<lambda>t c. c(k t \<mapsto> v t)) ts c)
     = fold (\<lambda>t c. c(k t \<mapsto> v t)) ts c"
proof
  fix x
  show "fold (\<lambda>t c. c(k t \<mapsto> v t)) ts (fold (\<lambda>t c. c(k t \<mapsto> v t)) ts c) x
     = fold (\<lambda>t c. c(k t \<mapsto> v t)) ts c x"
    unfolding fold_upd_apply by (simp split: option.splits)
qed

lemma fold_upd_lookup:
  assumes "t \<in> set ts" and "\<forall>t'\<in>set ts. k t' = k t \<longrightarrow> v t' = v t"
  shows "fold (\<lambda>t c. c(k t \<mapsto> v t)) ts c (k t) = Some (v t)"
proof -
  let ?kvs = "rev (map (\<lambda>t. (k t, v t)) ts)"
  have set_kvs: "set ?kvs = (\<lambda>t. (k t, v t)) ` set ts"
    by simp
  have "(k t, v t) \<in> set ?kvs"
    unfolding set_kvs using assms(1) by (rule imageI)
  then have "map_of ?kvs (k t) \<noteq> None"
    unfolding map_of_eq_None_iff by (metis fst_conv imageI)
  then obtain y where y: "map_of ?kvs (k t) = Some y"
    by blast
  then have "(k t, y) \<in> set ?kvs"
    by (rule map_of_SomeD)
  then obtain t' where t': "t' \<in> set ts" "(k t, y) = (k t', v t')"
    unfolding set_kvs by (rule imageE)
  then have "y = v t" using assms(2) by simp
  then show ?thesis
    unfolding fold_upd_apply y by simp
qed

lemma slotsBetween_total:
  assumes "0 < slotMs"
  shows "slotsBetween s e slotMs = Some (windowPartition s e slotMs)"
  using generateSlots_total[OF assms, of _ _ "[]"]
  by (simp add: slotsBetween_def windowPartition_def split: option.splits)

lemma writeClosedDay_fold:
  "writeClosedDay date ts cache
     = fold (\<lambda>t c. c(cacheKey date t \<mapsto> closedSnapshot date)) ts cache"
  by (induction ts arbitrary: cache) simp_all

lemma writeOpenDay_fold:
  "writeOpenDay date s e ms bs ts cache
     = (if ts = [] then Some cache
        else case slotsBetween s e ms of
               None \<Rightarrow> None
             | Some slots \<Rightarrow>
                 Some (fold (\<lambda>t c. c(cacheKey date t \<mapsto> openSnapshot slots bs t)) ts cache))"
  by (induction ts arbitrary: cache) (auto split: option.splits)

lemma updateAvailabilityCache_closed:
  assumes "db_restaurant d = Some r" and "cacheDayClosed r date"
  shows "updateAvailabilityCache lib date d
       = Some (Inr (d\<lparr>db_availability :=
            fold (\<lambda>t c. c(cacheKey date t \<mapsto> closedSnapshot date))
              (filter isActive (db_tables d)) (db_availability d)\<rparr>))"
  using assms by (simp add: updateAvailabilityCache_def writeClosedDay_fold)

lemma updateAvailabilityCache_open:
  assumes "db_restaurant d = Some r" and "\<not> cacheDayClosed r date"
    and "cacheHours r date = (Some opn, Some cls)"
    and "0 < timeSlotDuration (bookingRules r)"
  shows "updateAvailabilityCache lib date d
       = Some (Inr (d\<lparr>db_availability :=
            fold (\<lambda>t c. c(cacheKey date t \<mapsto>
                     openSnapshot
                       (windowPartition (cacheStart lib date opn) (cacheEnd lib date opn cls)
                          (timeSlotDuration (bookingRules r) * msPerMinute))
                       (dayBookings (db_bookings d) date) t))
              (filter isActive (db_tables d)) (db_availability d)\<rparr>))"
proof -
  have pos: "0 < timeSlotDuration (bookingRules r) * msPerMinute"
    using assms(4) by (simp add: msPerMinute_def)
  show ?thesis
    using assms(1,2,3)
    by (simp add: updateAvailabilityCache_def writeOpenDay_fold slotsBetween_total[OF pos]
        Let_def)
qed

lemma updateAvailabilityCache_throws:
  assumes "db_restaurant d = Some r" and "\<not> cacheDayClosed r date"
    and "fst (cacheHours r date) = None \<or> snd (cacheHours r date) = None"
  shows "updateAvailabilityCache lib date d = Some (Inl TypeError)"
  using assms by (auto simp: updateAvailabilityCache_def split: option.splits)

lemma updateAvailabilityCache_returns:
  assumes "db_restaurant d = Some r" and "0 < timeSlotDuration (bookingRules r)"
    and "cacheDayClosed r date \<or> cacheHours r date = (Some opn, Some cls)"
  shows "\<exists>d'. updateAvailabilityCache lib date d = Some (Inr d')"
proof (cases "cacheDayClosed r date")
  case True
  then show ?thesis using updateAvailabilityCache_closed[OF assms(1)] by blast
next
  case False
  with assms(3) have "cacheHours r date = (Some opn, Some cls)" by simp
  from updateAvailabilityCache_open[OF assms(1) False this assms(2)]
  show ?thesis by blast
qed

lemma updateAvailabilityCache_keeps:
  assumes "updateAvailabilityCache lib date d = Some (Inr d')"
  shows "db_restaurant d' = db_restaurant d \<and> db_tables d' = db_tables d
       \<and> db_bookings d' = db_bookings d"
  using assms
  by (auto simp: updateAvailabilityCache_def Let_def split: option.splits if_splits)

lemma updateAvailabilityCache_again:
  assumes "updateAvailabilityCache lib date d = Some (Inr d')"
  shows "updateAvailabilityCache lib date d' = Some (Inr d')"
proof -
  from assms obtain r where r: "db_restaurant d = Some r"
    by (auto simp: updateAvailabilityCache_def split: option.splits)
  let ?active = "filter isActive (db_tables d)"
  show ?thesis
  proof (cases "cacheDayClosed r date")
    case True
    let ?F = "fold (\<lambda>t c. c(cacheKey date t \<mapsto> closedSnapshot date)) ?active"
    have d': "d' = d\<lparr>db_availability := ?F (db_availability d)\<rparr>"
      using assms updateAvailabilityCache_closed[OF r True] by simp
    have "updateAvailabilityCache lib date d'
        = Some (Inr (d'\<lparr>db_availability := ?F (db_availability d')\<rparr>))"
      using updateAvailabilityCache_closed[of d' r date] r True by (simp add: d')
    also have "d'\<lparr>db_availability := ?F (db_availability d')\<rparr> = d'"
      by (simp add: d' fold_upd_idem)
    finally show ?thesis .
  next
    case False
    from assms r False obtain opn cls where h: "cacheHours r date = (Some opn, Some cls)"
      by (cases "cacheHours r date")
         (auto simp: updateAvailabilityCache_def split: option.splits)
    let ?ms = "timeSlotDuration (bookingRules r) * msPerMinute"
    let ?s = "cacheStart lib date opn" and ?e = "cacheEnd lib date opn cls"
    let ?bs = "dayBookings (db_bookings d) date"
    have shape: "updateAvailabilityCache lib date x
        = (case writeOpenDay date ?s ?e ?ms ?bs ?active (db_availability x) of
             None \<Rightarrow> None
           | Some cache \<Rightarrow> Some (Inr (x\<lparr>db_availability := cache\<rparr>)))"
      if "db_restaurant x = Some r" "db_tables x = db_tables d" "db_bookings x = db_bookings d"
      for x
      using that False h by (simp add: updateAvailabilityCache_def Let_def)
    show ?thesis
    proof (cases "?active = []")
      case True
      then have "d' = d\<lparr>db_availability := db_availability d\<rparr>"
        using assms shape[of d] r by simp
      then have d': "d' = d" by simp
      show ?thesis using assms by (simp add: d')
    next
      case ne: False
      then obtain slots where slots: "slotsBetween ?s ?e ?ms = Some slots"
        using assms shape[of d] r
        by (cases "slotsBetween ?s ?e ?ms") (simp_all add: writeOpenDay_fold)
      let ?F = "fold (\<lambda>t c. c(cacheKey date t \<mapsto> openSnapshot slots ?bs t)) ?active"
      have d': "d' = d\<lparr>db_availability := ?F (db_availability d)\<rparr>"
        using assms shape[of d] r ne slots by (simp add: writeOpenDay_fold)
      have "updateAvailabilityCache lib date d'
          = Some (Inr (d'\<lparr>db_availability := ?F (db_availability d')\<rparr>))"
        using shape[of d'] r ne slots by (simp add: d' writeOpenDay_fold)
      also have "d'\<lparr>db_availability := ?F (db_availability d')\<rparr> = d'"
        by (simp add: d' fold_upd_idem)
      finally show ?thesis .
    qed
  qed
qed

text \<open>
  C9. Rebuilding the cache is idempotent: when a rebuild of a date returns, a second
  rebuild of the same date on the resulting database, with tables, calendar rules and
  bookings untouched (the rebuild itself leaves them as they were), returns the very
  same database, hence the same free-slot list and blocked list under every
  (date, table) key. The rebuild does return when there is a settings document with a
  positive slot duration and the date is one the rebuild treats as closed or one whose
  hours are both declared (they always are unless a special event is pinned to the
  date). On a date that it does not treat as closed and whose first pinned special
  event leaves an hour undeclared, the rebuild throws before it writes anything.
\<close>

theorem rebuild_idempotent:
  "(updateAvailabilityCache lib date d = Some (Inr d') \<longrightarrow>
      updateAvailabilityCache lib date d' = Some (Inr d')
      \<and> db_restaurant d' = db_restaurant d \<and> db_tables d' = db_tables d
      \<and> db_bookings d' = db_bookings d)
   \<and> (db_restaurant d = Some r \<and> 0 < timeSlotDuration (bookingRules r)
        \<and> (cacheDayClosed r date \<or> cacheHours r date = (Some opn, Some cls)) \<longrightarrow>
        (\<exists>d1. updateAvailabilityCache lib date d = Some (Inr d1)))
   \<and> (db_restaurant d = Some r \<and> \<not> cacheDayClosed r date
        \<and> (fst (cacheHours r date) = None \<or> snd (cacheHours r date) = None) \<longrightarrow>
        updateAvailabilityCache lib date d = Some (Inl TypeError))"
  using updateAvailabilityCache_again[of lib date d d']
    updateAvailabilityCache_keeps[of lib date d d']
    updateAvailabilityCache_returns[of d r date opn cls lib]
    updateAvailabilityCache_throws[of d r date lib]
  by blast

lemma tableBookings_id:
  "table_id t' = table_id t \<Longrightarrow> tableBookings bs t' = tableBookings bs t"
  by (simp add: tableBookings_def)

lemma rebuild_open_day:
  assumes "db_restaurant d = Some r" and "0 < timeSlotDuration (bookingRules r)"
    and "\<not> cacheDayClosed r date" and "cacheHours r date = (Some opn, Some cls)"
    and "t \<in> set (db_tables d)" and "isActive t"
  shows "rebuiltSnapshot lib date d t
       = Some \<lparr>availableSlots =
                 windowPartition (cacheStart lib date opn) (cacheEnd lib date opn cls)
                   (timeSlotDuration (bookingRules r) * msPerMinute),
               blockedSlots =
                 map bookingBlock (tableBookings (dayBookings (db_bookings d) date) t)\<rparr>"
proof -
  let ?slots = "windowPartition (cacheStart lib date opn) (cacheEnd lib date opn cls)
                   (timeSlotDuration (bookingRules r) * msPerMinute)"
  let ?bs = "dayBookings (db_bookings d) date"
  have mem: "t \<in> set (filter isActive (db_tables d))" using assms(5,6) by simp
  have same: "\<forall>t'\<in>set (filter isActive (db_tables d)). cacheKey date t' = cacheKey date t
      \<longrightarrow> openSnapshot ?slots ?bs t' = openSnapshot ?slots ?bs t"
  proof (intro ballI impI)
    fix t'
    assume "cacheKey date t' = cacheKey date t"
    then have "table_id t' = table_id t" by (simp add: cacheKey_def)
    then have "tableBookings ?bs t' = tableBookings ?bs t" by (rule tableBookings_id)
    then show "openSnapshot ?slots ?bs t' = openSnapshot ?slots ?bs t"
      by (simp only: openSnapshot_def)
  qed
  have "fold (\<lambda>t c. c(cacheKey date t \<mapsto> openSnapshot ?slots ?bs t))
          (filter isActive (db_tables d)) (db_availability d) (cacheKey date t)
      = Some (openSnapshot ?slots ?bs t)"
    by (rule fold_upd_lookup[OF mem same])
  then show ?thesis
    unfolding rebuiltSnapshot_def updateAvailabilityCache_open[OF assms(1,3,4,2)]
    by (simp add: openSnapshot_def)
qed

lemma rebuild_closed_day:
  assumes "db_restaurant d = Some r" and "cacheDayClosed r date"
    and "t \<in> set (db_tables d)" and "isActive t"
  shows "rebuiltSnapshot lib date d t = Some (closedSnapshot date)"
proof -
  have mem: "t \<in> set (filter isActive (db_tables d))" using assms(3,4) by simp
  have "fold (\<lambda>t c. c(cacheKey date t \<mapsto> closedSnapshot date))
          (filter isActive (db_tables d)) (db_availability d) (cacheKey date t)
      = Some (closedSnapshot date)"
    by (rule fold_upd_lookup[OF mem]) simp
  then show ?thesis
    unfolding rebuiltSnapshot_def updateAvailabilityCache_closed[OF assms(1,2)]
    by simp
qed

lemma open_check_day:
  assumes "checkRestaurantOpen lib (Some r) date startTime endTime = IsOpen"
  shows "\<not> list_ex (\<lambda>c. sameDay (closedDate_date c) date) (closedDates r)"
  using assms
  by (auto simp: checkRestaurantOpen_def list_ex_iff find_None_iff split: option.splits)

text \<open>
  C3, as the code has it. Take a date on which the venue is open (the open check
  accepts some window of it), whose weekday the weekly schedule does not mark closed
  and whose hours are both declared (they always are unless a special event is pinned
  to the date), with a settings document and a positive slot duration. The rebuild
  then returns and writes, for every active table, the whole generated slot partition
  of the opening window as the free-slot list, whatever the bookings are, and one
  blocked interval per pending, confirmed or seated booking of that table on that
  date. No slot is taken out of the free list.
\<close>

theorem rebuild_writes_whole_partition:
  assumes "db_restaurant d = Some r"
    and "checkRestaurantOpen lib (Some r) date startTime endTime = IsOpen"
    and "\<forall>h. daySettings r date = Some h \<longrightarrow> \<not> isClosed h"
    and "cacheHours r date = (Some opn, Some cls)"
    and "0 < timeSlotDuration (bookingRules r)"
    and "t \<in> set (db_tables d)" and "isActive t"
  shows "(\<exists>d'. updateAvailabilityCache lib date d = Some (Inr d'))
       \<and> rebuiltSnapshot lib date d t
           = Some \<lparr>availableSlots =
                     windowPartition (cacheStart lib date opn) (cacheEnd lib date opn cls)
                       (timeSlotDuration (bookingRules r) * msPerMinute),
                   blockedSlots =
                     map bookingBlock (tableBookings (dayBookings (db_bookings d) date) t)\<rparr>"
proof -
  have "\<not> cacheDayClosed r date"
    using open_check_day[OF assms(2)] assms(3)
    by (auto simp: cacheDayClosed_def split: option.splits)
  from updateAvailabilityCache_open[OF assms(1) this assms(4,5)]
    rebuild_open_day[OF assms(1,5) this assms(4,6,7)]
  show ?thesis by blast
qed

lemma example_open_friday: "\<not> cacheDayClosed exampleRestaurant friday"
  by (simp add: cacheDayClosed_def daySettings_def example_defs time_defs)

lemma example_weekly_friday:
  "\<forall>h. daySettings exampleRestaurant friday = Some h \<longrightarrow> \<not> isClosed h"
  by (simp add: daySettings_def example_defs time_defs)

lemma example_cacheHours:
  "cacheHours exampleRestaurant friday = (Some ''18:00'', Some ''23:45'')"
  by (simp add: cacheHours_def daySettings_def example_defs time_defs)

lemma example_cacheStart:
  "cacheStart exampleLibrary friday ''18:00'' = Some (atTime friday (clock 18 0))"
  by (simp add: cacheStart_def text_defs example_defs time_defs)

lemma example_cacheEnd:
  "cacheEnd exampleLibrary friday ''18:00'' ''23:45'' = Some (atTime friday (clock 23 45))"
  by (simp add: cacheEnd_def text_defs example_defs time_defs)

lemma example_open_check:
  "checkRestaurantOpen exampleLibrary (Some exampleRestaurant) friday
     (atTime friday (clock 19 0)) (atTime friday (clock 21 0)) = IsOpen"
  by (simp add: checkRestaurantOpen_def findDayHours_def withinHours_def text_defs
      example_defs time_defs)

lemma example_slots:
  "windowPartition (Some (atTime friday (clock 18 0))) (Some (atTime friday (clock 23 45)))
       (30 * msPerMinute)
     = [(151200000, 153000000), (153000000, 154800000), (154800000, 156600000),
        (156600000, 158400000), (158400000, 160200000), (160200000, 162000000),
        (162000000, 163800000), (163800000, 165600000), (165600000, 167400000),
        (167400000, 169200000), (169200000, 171000000)]"
proof -
  have "[0 ..< 11] = [0, 1, 2, 3, 4, 5, 6, 7, 8, 9, 10 :: nat]"
    by code_simp
  then show ?thesis
    by (simp add: windowPartition_def slotPartition_def example_defs time_defs)
qed

lemma example_rebuild:
  "rebuiltSnapshot exampleLibrary friday (exampleDb [exampleBooking 1 [6] 6 19 21 Confirmed])
       (exampleTable 6 ''A6'' 6)
     = Some \<lparr>availableSlots =
               windowPartition (Some (atTime friday (clock 18 0)))
                 (Some (atTime friday (clock 23 45))) (30 * msPerMinute),
             blockedSlots = [bookingBlock (exampleBooking 1 [6] 6 19 21 Confirmed)]\<rparr>"
proof -
  let ?d = "exampleDb [exampleBooking 1 [6] 6 19 21 Confirmed]"
  have r: "db_restaurant ?d = Some exampleRestaurant" by (simp add: exampleDb_def)
  have pos: "0 < timeSlotDuration (bookingRules exampleRestaurant)"
    by (simp add: exampleRestaurant_def exampleRules_def)
  have t: "exampleTable 6 ''A6'' 6 \<in> set (db_tables ?d)" "isActive (exampleTable 6 ''A6'' 6)"
    by (simp_all add: exampleDb_def exampleTables_def exampleTable_def)
  have bs: "tableBookings (dayBookings (db_bookings ?d) friday) (exampleTable 6 ''A6'' 6)
      = [exampleBooking 1 [6] 6 19 21 Confirmed]"
    by (simp add: tableBookings_def dayBookings_def activeStatus_def example_defs time_defs)
  have ms: "timeSlotDuration (bookingRules exampleRestaurant) * msPerMinute = 30 * msPerMinute"
    by (simp add: exampleRestaurant_def exampleRules_def)
  show ?thesis
    using rebuild_open_day[OF r pos example_open_friday example_cacheHours t,
        of exampleLibrary]
    by (simp only: example_cacheStart example_cacheEnd bs ms list.map)
qed

theorem rebuild_writes_whole_partition_witness:
  "db_restaurant (exampleDb [exampleBooking 1 [6] 6 19 21 Confirmed]) = Some exampleRestaurant
   \<and> checkRestaurantOpen exampleLibrary (Some exampleRestaurant) friday
        (atTime friday (clock 19 0)) (atTime friday (clock 21 0)) = IsOpen
   \<and> daySettings exampleRestaurant friday = Some (exampleDay 5 False)
   \<and> \<not> isClosed (exampleDay 5 False)
   \<and> cacheHours exampleRestaurant friday = (Some ''18:00'', Some ''23:45'')
   \<and> 0 < timeSlotDuration (bookingRules exampleRestaurant)
   \<and> exampleTable 1 ''A1'' 2
        \<in> set (db_tables (exampleDb [exampleBooking 1 [6] 6 19 21 Confirmed]))
   \<and> isActive (exampleTable 1 ''A1'' 2)
   \<and> rebuiltSnapshot exampleLibrary friday
        (exampleDb [exampleBooking 1 [6] 6 19 21 Confirmed]) (exampleTable 1 ''A1'' 2)
       = Some \<lparr>availableSlots =
                 [(151200000, 153000000), (153000000, 154800000), (154800000, 156600000),
                  (156600000, 158400000), (158400000, 160200000), (160200000, 162000000),
                  (162000000, 163800000), (163800000, 165600000), (165600000, 167400000),
                  (167400000, 169200000), (169200000, 171000000)],
               blockedSlots = []\<rparr>"
proof -
  let ?d = "exampleDb [exampleBooking 1 [6] 6 19 21 Confirmed]"
  let ?t = "exampleTable 1 ''A1'' 2"
  have r: "db_restaurant ?d = Some exampleRestaurant" by (simp add: exampleDb_def)
  have w: "daySettings exampleRestaurant friday = Some (exampleDay 5 False)"
    "\<not> isClosed (exampleDay 5 False)"
    by (simp_all add: daySettings_def example_defs time_defs)
  have pos: "0 < timeSlotDuration (bookingRules exampleRestaurant)"
    by (simp add: exampleRestaurant_def exampleRules_def)
  have t: "?t \<in> set (db_tables ?d)" "isActive ?t"
    by (simp_all add: exampleDb_def exampleTables_def exampleTable_def)
  have bs: "tableBookings (dayBookings (db_bookings ?d) friday) ?t = []"
    by (simp add: tableBookings_def dayBookings_def activeStatus_def example_defs time_defs)
  have ms: "timeSlotDuration (bookingRules exampleRestaurant) * msPerMinute = 30 * msPerMinute"
    by (simp add: exampleRestaurant_def exampleRules_def)
  have "rebuiltSnapshot exampleLibrary friday ?d ?t
      = Some \<lparr>availableSlots =
                 windowPartition (Some (atTime friday (clock 18 0)))
                   (Some (atTime friday (clock 23 45))) (30 * msPerMinute),
               blockedSlots = []\<rparr>"
    using rebuild_writes_whole_partition[OF r example_open_check example_weekly_friday
        example_cacheHours pos t]
    by (simp only: example_cacheStart example_cacheEnd bs ms list.map)
  then have c: "rebuiltSnapshot exampleLibrary friday ?d ?t
      = Some \<lparr>availableSlots =
                 [(151200000, 153000000), (153000000, 154800000), (154800000, 156600000),
                  (156600000, 158400000), (158400000, 160200000), (160200000, 162000000),
                  (162000000, 163800000), (163800000, 165600000), (165600000, 167400000),
                  (167400000, 169200000), (169200000, 171000000)],
               blockedSlots = []\<rparr>"
    by (simp only: example_slots)
  show ?thesis by (intro conjI r example_open_check w example_cacheHours pos t c)
qed

text \<open>
  C3 as stated fails, in three ways. First, table A6 has a confirmed booking from 19:00
  to 21:00 on the Friday, within the opening hours, and after the rebuild its free-slot
  list still holds all eleven slots from 18:00 to 23:30, among them the slot from 19:00
  to 19:30 (154800000 to 156600000) that lies inside the booking. Second, with the
  brunch pinned to the Monday the open check accepts the window from 12:00 to 14:00,
  but the weekly schedule marks Mondays closed and the rebuild writes an empty free
  list and one blocked interval over the whole day. Third, with the tasting, which
  declares no hours, pinned to the Friday the open check accepts a window, but the
  rebuild throws and writes nothing.
\<close>

theorem free_slot_inside_booking:
  "rebuiltSnapshot exampleLibrary friday (exampleDb [exampleBooking 1 [6] 6 19 21 Confirmed])
       (exampleTable 6 ''A6'' 6)
     = Some \<lparr>availableSlots =
               [(151200000, 153000000), (153000000, 154800000), (154800000, 156600000),
                (156600000, 158400000), (158400000, 160200000), (160200000, 162000000),
                (162000000, 163800000), (163800000, 165600000), (165600000, 167400000),
                (167400000, 169200000), (169200000, 171000000)],
             blockedSlots =
               [\<lparr>blocked_start = 154800000, blocked_end = 162000000,
                 blocked_reason = ReasonBooking, blocked_bookingId = Some 1\<rparr>]\<rparr>
   \<and> booking_tables (exampleBooking 1 [6] 6 19 21 Confirmed) = [table_id (exampleTable 6 ''A6'' 6)]
   \<and> booking_status (exampleBooking 1 [6] 6 19 21 Confirmed) = Confirmed
   \<and> booking_date (exampleBooking 1 [6] 6 19 21 Confirmed) = startOfDay friday
   \<and> timeSlot_start (exampleBooking 1 [6] 6 19 21 Confirmed) = 154800000
   \<and> timeSlot_end (exampleBooking 1 [6] 6 19 21 Confirmed) = 162000000
   \<and> checkRestaurantOpen exampleLibrary (Some exampleRestaurant) friday 154800000 162000000
       = IsOpen
   \<and> checkRestaurantOpen exampleLibrary (Some (exampleRestaurant\<lparr>specialEvents := [brunch]\<rparr>))
        monday (atTime monday (clock 12 0)) (atTime monday (clock 14 0)) = IsOpen
   \<and> rebuiltSnapshot exampleLibrary monday
        ((exampleDb [])\<lparr>db_restaurant := Some (exampleRestaurant\<lparr>specialEvents := [brunch]\<rparr>)\<rparr>)
        (exampleTable 6 ''A6'' 6)
       = Some \<lparr>availableSlots = [],
               blockedSlots =
                 [\<lparr>blocked_start = 345600000, blocked_end = 431999999,
                   blocked_reason = ReasonClosed, blocked_bookingId = None\<rparr>]\<rparr>
   \<and> checkRestaurantOpen exampleLibrary
        (Some (exampleRestaurant\<lparr>specialEvents := [tasting friday]\<rparr>))
        friday (atTime friday (clock 19 0)) (atTime friday (clock 21 0)) = IsOpen
   \<and> updateAvailabilityCache exampleLibrary friday
        ((exampleDb [])\<lparr>db_restaurant :=
            Some (exampleRestaurant\<lparr>specialEvents := [tasting friday]\<rparr>)\<rparr>)
       = Some (Inl TypeError)"
proof -
  have snap: "rebuiltSnapshot exampleLibrary friday
       (exampleDb [exampleBooking 1 [6] 6 19 21 Confirmed]) (exampleTable 6 ''A6'' 6)
     = Some \<lparr>availableSlots =
               [(151200000, 153000000), (153000000, 154800000), (154800000, 156600000),
                (156600000, 158400000), (158400000, 160200000), (160200000, 162000000),
                (162000000, 163800000), (163800000, 165600000), (165600000, 167400000),
                (167400000, 169200000), (169200000, 171000000)],
             blockedSlots =
               [\<lparr>blocked_start = 154800000, blocked_end = 162000000,
                 blocked_reason = ReasonBooking, blocked_bookingId = Some 1\<rparr>]\<rparr>"
    unfolding example_rebuild example_slots
    by (simp add: bookingBlock_def example_defs time_defs)
  let ?rm = "exampleRestaurant\<lparr>specialEvents := [brunch]\<rparr>"
  let ?dm = "(exampleDb [])\<lparr>db_restaurant := Some ?rm\<rparr>"
  have "rebuiltSnapshot exampleLibrary monday ?dm (exampleTable 6 ''A6'' 6)
      = Some (closedSnapshot monday)"
    by (rule rebuild_closed_day[where r = ?rm])
       (simp_all add: cacheDayClosed_def daySettings_def example_defs time_defs)
  then have closed: "rebuiltSnapshot exampleLibrary monday ?dm (exampleTable 6 ''A6'' 6)
       = Some \<lparr>availableSlots = [],
               blockedSlots =
                 [\<lparr>blocked_start = 345600000, blocked_end = 431999999,
                   blocked_reason = ReasonClosed, blocked_bookingId = None\<rparr>]\<rparr>"
    by (simp add: closedSnapshot_def monday_def time_defs)
  let ?rt = "exampleRestaurant\<lparr>specialEvents := [tasting friday]\<rparr>"
  have throws: "updateAvailabilityCache exampleLibrary friday
        ((exampleDb [])\<lparr>db_restaurant := Some ?rt\<rparr>) = Some (Inl TypeError)"
    by (rule updateAvailabilityCache_throws[where r = ?rt])
       (simp_all add: cacheDayClosed_def cacheHours_def daySettings_def tasting_def
          example_defs time_defs)
  show ?thesis
    by (intro conjI snap closed throws)
       (simp_all add: checkRestaurantOpen_def findDayHours_def withinHours_def text_defs
          brunch_def tasting_def example_defs time_defs)
qed

theorem rebuild_idempotent_witness:
  "db_restaurant (exampleDb [exampleBooking 1 [6] 6 19 21 Confirmed]) = Some exampleRestaurant
   \<and> 0 < timeSlotDuration (bookingRules exampleRestaurant)
   \<and> cacheHours exampleRestaurant friday = (Some ''18:00'', Some ''23:45'')
   \<and> (case updateAvailabilityCache exampleLibrary friday
              (exampleDb [exampleBooking 1 [6] 6 19 21 Confirmed]) of
         Some (Inr d1) \<Rightarrow> updateAvailabilityCache exampleLibrary friday d1 = Some (Inr d1)
       | _ \<Rightarrow> False)
   \<and> db_restaurant ((exampleDb [])\<lparr>db_restaurant :=
          Some (exampleRestaurant\<lparr>specialEvents := [tasting friday]\<rparr>)\<rparr>)
       = Some (exampleRestaurant\<lparr>specialEvents := [tasting friday]\<rparr>)
   \<and> \<not> cacheDayClosed (exampleRestaurant\<lparr>specialEvents := [tasting friday]\<rparr>) friday
   \<and> fst (cacheHours (exampleRestaurant\<lparr>specialEvents := [tasting friday]\<rparr>) friday) = None
   \<and> updateAvailabilityCache exampleLibrary friday
        ((exampleDb [])\<lparr>db_restaurant :=
            Some (exampleRestaurant\<lparr>specialEvents := [tasting friday]\<rparr>)\<rparr>)
       = Some (Inl TypeError)"
proof -
  let ?d = "exampleDb [exampleBooking 1 [6] 6 19 21 Confirmed]"
  have r: "db_restaurant ?d = Some exampleRestaurant" by (simp add: exampleDb_def)
  have pos: "0 < timeSlotDuration (bookingRules exampleRestaurant)"
    by (simp add: exampleRestaurant_def exampleRules_def)
  from rebuild_idempotent[where d = ?d and r = exampleRestaurant and date = friday
      and opn = "''18:00''" and cls = "''23:45''" and lib = exampleLibrary]
    r pos example_cacheHours
  obtain d1 where d1: "updateAvailabilityCache exampleLibrary friday ?d = Some (Inr d1)"
    by blast
  with rebuild_idempotent[where d = ?d and d' = d1 and date = friday and lib = exampleLibrary]
  have "updateAvailabilityCache exampleLibrary friday d1 = Some (Inr d1)" by blast
  with d1 have again: "case updateAvailabilityCache exampleLibrary friday ?d of
         Some (Inr d1) \<Rightarrow> updateAvailabilityCache exampleLibrary friday d1 = Some (Inr d1)
       | _ \<Rightarrow> False" by simp
  let ?rt = "exampleRestaurant\<lparr>specialEvents := [tasting friday]\<rparr>"
  let ?dt = "(exampleDb [])\<lparr>db_restaurant := Some ?rt\<rparr>"
  have rt: "db_restaurant ?dt = Some ?rt" by simp
  have nc: "\<not> cacheDayClosed ?rt friday"
    by (simp add: cacheDayClosed_def daySettings_def example_defs time_defs)
  have nh: "fst (cacheHours ?rt friday) = None"
    by (simp add: cacheHours_def tasting_def sameDay_def)
  from rebuild_idempotent[where d = ?dt and r = ?rt and date = friday and lib = exampleLibrary]
    rt nc nh
  have throws: "updateAvailabilityCache exampleLibrary friday ?dt = Some (Inl TypeError)"
    by blast
  show ?thesis by (intro conjI r pos example_cacheHours again rt nc nh throws)
qed

section \<open>Properties of the status change\<close>

lemma find_setStatusById:
  "List.find (\<lambda>b. booking_id b = i) (setStatusById i st bs)
     = map_option (\<lambda>b. b\<lparr>booking_status := st\<rparr>) (List.find (\<lambda>b. booking_id b = i) bs)"
  by (induction bs) simp_all

text \<open>
  C2, as the code has it. The status change validates the status value only, never the
  transition. A value outside the six answers "invalid status value", an identifier
  that is not an object id answers a server error and an identifier that matches no
  booking answers "not found", all three leaving the database as it was. Otherwise, for
  every stored booking, whatever its current status, and each of the six values, the
  value is stored as the booking's status. When the value is neither \<open>cancelled\<close> nor
  \<open>no-show\<close> the answer is the updated booking. When it is one of the two, the cache of
  the booking's date is rebuilt after the status is stored: if the rebuild returns (it
  leaves the bookings as they are) the answer is the updated booking, if it throws the
  answer is a server error and the new status stays stored, and if it does not return
  there is no answer.
\<close>

theorem updateBookingStatus_accepts_any_status:
  "(parseStatus s = None \<longrightarrow>
      updateBookingStatus lib d bid s = Some (BadRequest InvalidStatusValue, d))
   \<and> (parseStatus s = Some st \<longrightarrow>
      updateBookingStatus lib d None s = Some (ServerError, d))
   \<and> (parseStatus s = Some st \<and> List.find (\<lambda>b. booking_id b = i) (db_bookings d) = None \<longrightarrow>
      updateBookingStatus lib d (Some i) s = Some (NotFound, d))
   \<and> (parseStatus s = Some st \<and> List.find (\<lambda>b. booking_id b = i) (db_bookings d) = Some b \<longrightarrow>
      List.find (\<lambda>b. booking_id b = i) (db_bookings (storeStatus d i st))
        = Some (b\<lparr>booking_status := st\<rparr>)
      \<and> updateBookingStatus lib d (Some i) s
          = (if st = Cancelled \<or> st = NoShow
             then (case updateAvailabilityCache lib (booking_date b) (storeStatus d i st) of
                     None \<Rightarrow> None
                   | Some (Inl err) \<Rightarrow> Some (ServerError, storeStatus d i st)
                   | Some (Inr d2) \<Rightarrow> Some (Updated (b\<lparr>booking_status := st\<rparr>), d2))
             else Some (Updated (b\<lparr>booking_status := st\<rparr>), storeStatus d i st))
      \<and> (\<forall>d2. updateAvailabilityCache lib (booking_date b) (storeStatus d i st)
                 = Some (Inr d2) \<longrightarrow>
            db_bookings d2 = db_bookings (storeStatus d i st)))"
proof (intro conjI impI allI)
  assume "parseStatus s = None"
  then show "updateBookingStatus lib d bid s = Some (BadRequest InvalidStatusValue, d)"
    by (simp add: updateBookingStatus_def)
next
  assume "parseStatus s = Some st"
  then show "updateBookingStatus lib d None s = Some (ServerError, d)"
    by (simp add: updateBookingStatus_def)
next
  assume "parseStatus s = Some st \<and> List.find (\<lambda>b. booking_id b = i) (db_bookings d) = None"
  then show "updateBookingStatus lib d (Some i) s = Some (NotFound, d)"
    by (simp add: updateBookingStatus_def)
next
  assume "parseStatus s = Some st
    \<and> List.find (\<lambda>b. booking_id b = i) (db_bookings d) = Some b"
  then show "List.find (\<lambda>b. booking_id b = i) (db_bookings (storeStatus d i st))
        = Some (b\<lparr>booking_status := st\<rparr>)"
    by (simp add: storeStatus_def find_setStatusById)
next
  assume "parseStatus s = Some st
    \<and> List.find (\<lambda>b. booking_id b = i) (db_bookings d) = Some b"
  then show "updateBookingStatus lib d (Some i) s
          = (if st = Cancelled \<or> st = NoShow
             then (case updateAvailabilityCache lib (booking_date b) (storeStatus d i st) of
                     None \<Rightarrow> None
                   | Some (Inl err) \<Rightarrow> Some (ServerError, storeStatus d i st)
                   | Some (Inr d2) \<Rightarrow> Some (Updated (b\<lparr>booking_status := st\<rparr>), d2))
             else Some (Updated (b\<lparr>booking_status := st\<rparr>), storeStatus d i st))"
    by (simp add: updateBookingStatus_def Let_def)
next
  fix d2
  assume "updateAvailabilityCache lib (booking_date b) (storeStatus d i st) = Some (Inr d2)"
  then show "db_bookings d2 = db_bookings (storeStatus d i st)"
    using updateAvailabilityCache_keeps by blast
qed

text \<open>
  C2 as stated fails: a booking whose status is the terminal \<open>completed\<close> is moved to
  \<open>pending\<close> by a status request, which answers with the updated booking.
\<close>

theorem completed_booking_reopened:
  "updateBookingStatus exampleLibrary (exampleDb [exampleBooking 1 [6] 6 19 21 Completed])
       (Some 1) ''pending''
     = Some (Updated (exampleBooking 1 [6] 6 19 21 Pending),
             exampleDb [exampleBooking 1 [6] 6 19 21 Pending])
   \<and> booking_status (exampleBooking 1 [6] 6 19 21 Completed) = Completed
   \<and> booking_status (exampleBooking 1 [6] 6 19 21 Pending) = Pending"
  by (simp add: updateBookingStatus_def storeStatus_def parseStatus_def exampleDb_def
      exampleBooking_def)

theorem updateBookingStatus_accepts_any_status_witness:
  "parseStatus ''archived'' = None
   \<and> updateBookingStatus exampleLibrary (exampleDb [exampleBooking 1 [6] 6 19 21 Completed])
          (Some 1) ''archived''
       = Some (BadRequest InvalidStatusValue, exampleDb [exampleBooking 1 [6] 6 19 21 Completed])
   \<and> parseStatus ''seated'' = Some Seated
   \<and> updateBookingStatus exampleLibrary (exampleDb [exampleBooking 1 [6] 6 19 21 Completed])
          None ''seated''
       = Some (ServerError, exampleDb [exampleBooking 1 [6] 6 19 21 Completed])
   \<and> List.find (\<lambda>b. booking_id b = 7)
        (db_bookings (exampleDb [exampleBooking 1 [6] 6 19 21 Completed])) = None
   \<and> updateBookingStatus exampleLibrary (exampleDb [exampleBooking 1 [6] 6 19 21 Completed])
          (Some 7) ''seated''
       = Some (NotFound, exampleDb [exampleBooking 1 [6] 6 19 21 Completed])
   \<and> List.find (\<lambda>b. booking_id b = 1)
        (db_bookings (exampleDb [exampleBooking 1 [6] 6 19 21 Completed]))
       = Some (exampleBooking 1 [6] 6 19 21 Completed)
   \<and> updateBookingStatus exampleLibrary (exampleDb [exampleBooking 1 [6] 6 19 21 Completed])
          (Some 1) ''seated''
       = Some (Updated (exampleBooking 1 [6] 6 19 21 Seated),
               exampleDb [exampleBooking 1 [6] 6 19 21 Seated])
   \<and> parseStatus ''cancelled'' = Some Cancelled
   \<and> (case updateBookingStatus exampleLibrary
              (exampleDb [exampleBooking 1 [6] 6 19 21 Completed]) (Some 1) ''cancelled'' of
         Some (resp, d') \<Rightarrow>
           resp = Updated (exampleBooking 1 [6] 6 19 21 Cancelled)
           \<and> db_bookings d' = [exampleBooking 1 [6] 6 19 21 Cancelled]
       | None \<Rightarrow> False)
   \<and> updateBookingStatus exampleLibrary
        ((exampleDb [exampleBooking 1 [6] 6 19 21 Completed])\<lparr>db_restaurant := None\<rparr>)
        (Some 1) ''cancelled''
       = Some (ServerError,
               (exampleDb [exampleBooking 1 [6] 6 19 21 Cancelled])\<lparr>db_restaurant := None\<rparr>)"
proof -
  let ?d = "exampleDb [exampleBooking 1 [6] 6 19 21 Completed]"
  let ?b = "exampleBooking 1 [6] 6 19 21 Completed"
  note t = updateBookingStatus_accepts_any_status
  have p1: "parseStatus ''archived'' = None" by (simp add: parseStatus_def)
  have c1: "updateBookingStatus exampleLibrary ?d (Some 1) ''archived''
      = Some (BadRequest InvalidStatusValue, ?d)"
    using t[where s = "''archived''" and d = ?d and bid = "Some 1" and lib = exampleLibrary] p1
    by blast
  have p2: "parseStatus ''seated'' = Some Seated" by (simp add: parseStatus_def)
  have c0: "updateBookingStatus exampleLibrary ?d None ''seated'' = Some (ServerError, ?d)"
    using t[where s = "''seated''" and d = ?d and st = Seated and lib = exampleLibrary] p2
    by blast
  have f2: "List.find (\<lambda>b. booking_id b = 7) (db_bookings ?d) = None"
    by (simp add: exampleDb_def exampleBooking_def)
  have c2: "updateBookingStatus exampleLibrary ?d (Some 7) ''seated'' = Some (NotFound, ?d)"
    using t[where s = "''seated''" and d = ?d and i = 7 and st = Seated
        and lib = exampleLibrary] p2 f2
    by blast
  have f3: "List.find (\<lambda>b. booking_id b = 1) (db_bookings ?d) = Some ?b"
    by (simp add: exampleDb_def exampleBooking_def)
  have st: "storeStatus ?d 1 x = exampleDb [exampleBooking 1 [6] 6 19 21 x]" for x
    by (simp add: storeStatus_def exampleDb_def exampleBooking_def)
  have b: "?b\<lparr>booking_status := x\<rparr> = exampleBooking 1 [6] 6 19 21 x" for x
    by (simp add: exampleBooking_def)
  have "updateBookingStatus exampleLibrary ?d (Some 1) ''seated''
      = Some (Updated (?b\<lparr>booking_status := Seated\<rparr>), storeStatus ?d 1 Seated)"
    using t[where s = "''seated''" and d = ?d and i = 1 and st = Seated and b = ?b
        and lib = exampleLibrary] p2 f3
    by simp
  then have c3: "updateBookingStatus exampleLibrary ?d (Some 1) ''seated''
      = Some (Updated (exampleBooking 1 [6] 6 19 21 Seated),
              exampleDb [exampleBooking 1 [6] 6 19 21 Seated])"
    by (simp only: st b)
  have p4: "parseStatus ''cancelled'' = Some Cancelled" by (simp add: parseStatus_def)
  let ?d1 = "exampleDb [exampleBooking 1 [6] 6 19 21 Cancelled]"
  have r: "db_restaurant ?d1 = Some exampleRestaurant" by (simp add: exampleDb_def)
  have pos: "0 < timeSlotDuration (bookingRules exampleRestaurant)"
    by (simp add: exampleRestaurant_def exampleRules_def)
  have day: "booking_date ?b = friday" by (simp add: exampleBooking_def)
  from updateAvailabilityCache_returns[OF r pos, of friday "''18:00''" "''23:45''"
      exampleLibrary] example_cacheHours
  obtain d2 where d2: "updateAvailabilityCache exampleLibrary friday ?d1 = Some (Inr d2)"
    by blast
  have d2': "updateAvailabilityCache exampleLibrary (booking_date ?b)
      (storeStatus ?d 1 Cancelled) = Some (Inr d2)"
    using d2 by (simp only: st day)
  have "updateBookingStatus exampleLibrary ?d (Some 1) ''cancelled''
      = Some (Updated (?b\<lparr>booking_status := Cancelled\<rparr>), d2)
    \<and> db_bookings d2 = db_bookings (storeStatus ?d 1 Cancelled)"
    using t[where s = "''cancelled''" and d = ?d and i = 1 and st = Cancelled and b = ?b
        and lib = exampleLibrary] p4 f3 d2'
    by simp
  then have "updateBookingStatus exampleLibrary ?d (Some 1) ''cancelled''
      = Some (Updated (exampleBooking 1 [6] 6 19 21 Cancelled), d2)
    \<and> db_bookings d2 = db_bookings (exampleDb [exampleBooking 1 [6] 6 19 21 Cancelled])"
    by (simp only: st b)
  then have c4: "case updateBookingStatus exampleLibrary ?d (Some 1) ''cancelled'' of
         Some (resp, d') \<Rightarrow>
           resp = Updated (exampleBooking 1 [6] 6 19 21 Cancelled)
           \<and> db_bookings d' = [exampleBooking 1 [6] 6 19 21 Cancelled]
       | None \<Rightarrow> False"
    by (simp add: exampleDb_def)
  let ?n = "?d\<lparr>db_restaurant := None\<rparr>"
  have f5: "List.find (\<lambda>b. booking_id b = 1) (db_bookings ?n) = Some ?b"
    by (simp add: exampleDb_def exampleBooking_def)
  have st5: "storeStatus ?n 1 Cancelled = ?d1\<lparr>db_restaurant := None\<rparr>"
    by (simp add: storeStatus_def exampleDb_def exampleBooking_def)
  have th5: "updateAvailabilityCache exampleLibrary friday (?d1\<lparr>db_restaurant := None\<rparr>)
      = Some (Inl TypeError)"
    by (simp add: updateAvailabilityCache_def)
  have th5': "updateAvailabilityCache exampleLibrary (booking_date ?b)
      (storeStatus ?n 1 Cancelled) = Some (Inl TypeError)"
    using th5 by (simp only: st5 day)
  have "updateBookingStatus exampleLibrary ?n (Some 1) ''cancelled''
      = Some (ServerError, storeStatus ?n 1 Cancelled)"
    using t[where s = "''cancelled''" and d = ?n and i = 1 and st = Cancelled and b = ?b
        and lib = exampleLibrary] p4 f5 th5'
    by simp
  then have c5: "updateBookingStatus exampleLibrary ?n (Some 1) ''cancelled''
      = Some (ServerError, ?d1\<lparr>db_restaurant := None\<rparr>)"
    by (simp only: st5)
  show ?thesis by (intro conjI p1 c1 p2 c0 f2 c2 f3 c3 p4 c4 c5)
qed

section \<open>Properties of the create handler\<close>




lemma createBooking_staff:
  assumes "isStaffUser (req_user req)"
  shows "createBooking lib d req =
     (if \<not> req_validationOk req then Some (BadRequest ValidationErrors, d)
      else
        (case assignTables d req True of
           Inl err \<Rightarrow> Some (ServerError, d)
         | Inr assignedTableIds \<Rightarrow>
             if \<not> schemaAccepts lib (bookingData d req True assignedTableIds)
             then Some (ServerError, d)
             else
               (case updateAvailabilityCache lib (req_date req)
                       (d\<lparr>db_bookings := db_bookings d
                            @ [bookingData d req True assignedTableIds]\<rparr>) of
                  None \<Rightarrow> None
                | Some (Inl err) \<Rightarrow>
                    Some (ServerError, d\<lparr>db_bookings := db_bookings d
                            @ [bookingData d req True assignedTableIds]\<rparr>)
                | Some (Inr d2) \<Rightarrow>
                    Some (Created (bookingData d req True assignedTableIds), d2))))"
proof -
  have staff: "isStaffUser (req_user req) = True" using assms by simp
  show ?thesis
    unfolding createBooking_def Let_def staff by simp
qed









section \<open>Overlapping bookings\<close>

lemma createBooking_guest:
  assumes "\<not> isStaffUser (req_user req)" and "req_validationOk req"
    and "customerChecks lib d req = Inr None"
    and "assignTables d req False = Inr a"
    and "schemaAccepts lib (bookingData d req False a)"
    and "updateAvailabilityCache lib (req_date req)
           (d\<lparr>db_bookings := db_bookings d @ [bookingData d req False a]\<rparr>) = Some (Inr d2)"
  shows "createBooking lib d req = Some (Created (bookingData d req False a), d2)"
proof -
  have guest: "isStaffUser (req_user req) = False" using assms(1) by simp
  show ?thesis
    unfolding createBooking_def Let_def guest using assms(2-6) by simp
qed

lemma example_request_sel:
  "req_validationOk (exampleRequest u date t dur n ids)"
  "req_user (exampleRequest u date t dur n ids) = u"
  "req_date (exampleRequest u date t dur n ids) = date"
  "req_partySize (exampleRequest u date t dur n ids) = n"
  "req_tableIds (exampleRequest u date t dur n ids) = ids"
  "requestStart (exampleRequest u date t dur n ids) = atTime date t"
  by (simp_all add: exampleRequest_def requestStart_def)

lemma guest_finds_A6:
  assumes "db_tables d = exampleTables" and "db_restaurant d = Some lateRestaurant"
    and "overlappingBookings (db_bookings d) date startTime endTime = []"
  shows "findAvailableTables d date startTime endTime 6 False
       = Inr (Available [exampleTable 6 ''A6'' 6] 6)"
  by (simp add: findAvailableTables_def bookedTableIds_def currentBookedPeople_def
      comboCapacity_def findBestTableCombination_def maxAllowed_example assms
      lateRestaurant_def exampleRestaurant_def exampleRules_def exampleTables_def
      exampleTable_def)

lemma late_hours:
  "cacheHours lateRestaurant friday = (Some ''18:00'', Some ''02:00'')"
  "cacheHours lateRestaurant saturday = (Some ''00:00'', Some ''23:45'')"
  "0 < timeSlotDuration (bookingRules lateRestaurant)"
  "maxPartySize (bookingRules lateRestaurant) = 10"
  by (simp_all add: cacheHours_def daySettings_def lateRestaurant_def saturday_def
      example_defs time_defs)

lemma late_open:
  "checkRestaurantOpen exampleLibrary (Some lateRestaurant) friday 171000000 178200000 = IsOpen"
  "checkRestaurantOpen exampleLibrary (Some lateRestaurant) saturday 174600000 178200000 = IsOpen"
  by (simp_all add: checkRestaurantOpen_def findDayHours_def withinHours_def text_defs
      lateRestaurant_def saturday_def example_defs time_defs)

lemma guest_request_times:
  "requestStart (exampleRequest None friday (clock 23 30) None 6 []) = 171000000"
  "requestEnd (exampleRequest None friday (clock 23 30) None 6 []) = 178200000"
  "requestStart (exampleRequest None saturday (clock 0 30) (Some 60) 6 []) = 174600000"
  "requestEnd (exampleRequest None saturday (clock 0 30) (Some 60) 6 []) = 178200000"
  by (simp_all add: requestStart_def requestEnd_def requestDuration_def exampleRequest_def
      saturday_def clock_def friday_def time_defs)

lemma guest_accepted:
  assumes "db_tables d = exampleTables" and "db_restaurant d = Some lateRestaurant"
    and "req_user req = None" and "req_validationOk req" and "req_partySize req = 6"
    and "req_tableIds req = []"
    and "checkRestaurantOpen exampleLibrary (Some lateRestaurant) (req_date req)
           (requestStart req) (requestEnd req) = IsOpen"
    and "overlappingBookings (db_bookings d) (req_date req) (requestStart req) (requestEnd req)
         = []"
    and "schemaAccepts exampleLibrary (bookingData d req False [6])"
    and "cacheHours lateRestaurant (req_date req) = (Some opn, Some cls)"
  shows "\<exists>d2. createBooking exampleLibrary d req = Some (Created (bookingData d req False [6]), d2)
           \<and> db_tables d2 = exampleTables \<and> db_restaurant d2 = Some lateRestaurant
           \<and> db_bookings d2 = db_bookings d @ [bookingData d req False [6]]"
proof -
  let ?b = "bookingData d req False [6]"
  let ?d1 = "d\<lparr>db_bookings := db_bookings d @ [?b]\<rparr>"
  have guest: "\<not> isStaffUser (req_user req)"
    by (simp add: isStaffUser_def assms(3))
  have found: "findAvailableTables d (req_date req) (requestStart req) (requestEnd req) 6 False
      = Inr (Available [exampleTable 6 ''A6'' 6] 6)"
    by (rule guest_finds_A6[OF assms(1,2,8)])
  have checks: "customerChecks exampleLibrary d req = Inr None"
    unfolding customerChecks_def assms(2,5,6,7) found
    by (simp add: late_hours)
  have assigned: "assignTables d req False = Inr [6]"
    unfolding assignTables_def assms(5,6) found
    by (simp add: exampleTable_def)
  have "db_restaurant ?d1 = Some lateRestaurant" using assms(2) by simp
  from updateAvailabilityCache_returns[OF this late_hours(3), of "req_date req" opn cls
      exampleLibrary] assms(10)
  obtain d2 where d2: "updateAvailabilityCache exampleLibrary (req_date req) ?d1 = Some (Inr d2)"
    by blast
  from updateAvailabilityCache_keeps[OF d2] assms(1,2)
  have kept: "db_tables d2 = exampleTables" "db_restaurant d2 = Some lateRestaurant"
    "db_bookings d2 = db_bookings d @ [?b]"
    by simp_all
  from createBooking_guest[OF guest assms(4) checks assigned assms(9) d2] kept
  show ?thesis by blast
qed

text \<open>
  C1 fails on both kinds of request. Over the public route: the venue is open overnight
  on the Friday; a guest books six people from 23:30 for the default two hours and gets
  table A6 until 01:30 on the Saturday; a second guest then books six people on the
  Saturday from 00:30 to 01:30 and gets table A6 as well, because the overlap query
  looks only at bookings whose date is the Saturday. For staff: table A6 is booked from
  19:00 to 21:00 on the Friday, and a staff request that names table A6 for 20:00 to
  22:00 is stored as it is. In both cases two bookings of table A6 with a status among
  pending and confirmed overlap.
\<close>

theorem overlapping_bookings_created:
  "(\<exists>b1 d1 b2 d2.
      createBooking exampleLibrary (lateDb [])
          (exampleRequest None friday (clock 23 30) None 6 []) = Some (Created b1, d1)
      \<and> createBooking exampleLibrary d1
          (exampleRequest None saturday (clock 0 30) (Some 60) 6 []) = Some (Created b2, d2)
      \<and> db_bookings d2 = [b1, b2]
      \<and> booking_tables b1 = [6] \<and> booking_status b1 = Pending
      \<and> timeSlot_start b1 = 171000000 \<and> timeSlot_end b1 = 178200000
      \<and> booking_tables b2 = [6] \<and> booking_status b2 = Pending
      \<and> timeSlot_start b2 = 174600000 \<and> timeSlot_end b2 = 178200000)
   \<and> (\<exists>b d'.
        createBooking exampleLibrary (exampleDb [exampleBooking 1 [6] 6 19 21 Confirmed])
            (exampleRequest (Some staffMember) friday (clock 20 0) None 4 [6])
          = Some (Created b, d')
        \<and> db_bookings d' = [exampleBooking 1 [6] 6 19 21 Confirmed, b]
        \<and> booking_tables (exampleBooking 1 [6] 6 19 21 Confirmed) = [6]
        \<and> booking_status (exampleBooking 1 [6] 6 19 21 Confirmed) = Confirmed
        \<and> timeSlot_start (exampleBooking 1 [6] 6 19 21 Confirmed) = 154800000
        \<and> timeSlot_end (exampleBooking 1 [6] 6 19 21 Confirmed) = 162000000
        \<and> booking_tables b = [6] \<and> booking_status b = Confirmed
        \<and> timeSlot_start b = 158400000 \<and> timeSlot_end b = 165600000)"
proof (intro conjI)
  let ?q1 = "exampleRequest None friday (clock 23 30) None 6 []"
  let ?q2 = "exampleRequest None saturday (clock 0 30) (Some 60) 6 []"
  let ?b1 = "bookingData (lateDb []) ?q1 False [6]"
  have d0: "db_tables (lateDb []) = exampleTables"
    "db_restaurant (lateDb []) = Some lateRestaurant" "db_bookings (lateDb []) = []"
    by (simp_all add: lateDb_def exampleDb_def)
  have schema: "schemaAccepts exampleLibrary (bookingData d ?q1 False [6])"
    "schemaAccepts exampleLibrary (bookingData d ?q2 False [6])" for d
    by (simp_all add: schemaAccepts_def bookingData_def exampleRequest_def exampleLibrary_def
        requestDuration_def)
  have "overlappingBookings (db_bookings (lateDb [])) (req_date ?q1) (requestStart ?q1)
      (requestEnd ?q1) = []"
    by (simp add: d0 overlappingBookings_def)
  from guest_accepted[OF d0(1,2) example_request_sel(2,1,4,5) _ this schema(1),
      of "''18:00''" "''02:00''"]
  obtain d1 where d1: "createBooking exampleLibrary (lateDb []) ?q1 = Some (Created ?b1, d1)"
    "db_tables d1 = exampleTables" "db_restaurant d1 = Some lateRestaurant"
    "db_bookings d1 = [?b1]"
    by (auto simp: example_request_sel(3) guest_request_times late_open late_hours d0)
  let ?b2 = "bookingData d1 ?q2 False [6]"
  have b1: "booking_tables ?b1 = [6]" "booking_status ?b1 = Pending"
    "timeSlot_start ?b1 = 171000000" "timeSlot_end ?b1 = 178200000"
    "booking_date ?b1 = startOfDay friday"
    by (simp_all add: bookingData_def guest_request_times example_request_sel(3))
  have "booking_date ?b1 \<noteq> startOfDay (req_date ?q2)"
    unfolding b1(5) example_request_sel(3)
    by (simp add: friday_def saturday_def time_defs)
  then have "overlappingBookings (db_bookings d1) (req_date ?q2) (requestStart ?q2)
      (requestEnd ?q2) = []"
    by (simp add: d1(4) overlappingBookings_def)
  from guest_accepted[OF d1(2,3) example_request_sel(2,1,4,5) _ this schema(2),
      of "''00:00''" "''23:45''"]
  obtain d2 where d2: "createBooking exampleLibrary d1 ?q2 = Some (Created ?b2, d2)"
    "db_bookings d2 = [?b1, ?b2]"
    by (auto simp: example_request_sel(3) guest_request_times late_open late_hours d1(4))
  have b2: "booking_tables ?b2 = [6]" "booking_status ?b2 = Pending"
    "timeSlot_start ?b2 = 174600000" "timeSlot_end ?b2 = 178200000"
    by (simp_all add: bookingData_def guest_request_times)
  show "\<exists>b1 d1 b2 d2.
      createBooking exampleLibrary (lateDb []) ?q1 = Some (Created b1, d1)
      \<and> createBooking exampleLibrary d1 ?q2 = Some (Created b2, d2)
      \<and> db_bookings d2 = [b1, b2]
      \<and> booking_tables b1 = [6] \<and> booking_status b1 = Pending
      \<and> timeSlot_start b1 = 171000000 \<and> timeSlot_end b1 = 178200000
      \<and> booking_tables b2 = [6] \<and> booking_status b2 = Pending
      \<and> timeSlot_start b2 = 174600000 \<and> timeSlot_end b2 = 178200000"
    using d1(1) d2 b1(1-4) b2 by blast
next
  let ?old = "exampleBooking 1 [6] 6 19 21 Confirmed"
  let ?d = "exampleDb [?old]"
  let ?q = "exampleRequest (Some staffMember) friday (clock 20 0) None 4 [6]"
  let ?b = "bookingData ?d ?q True [6]"
  let ?d1 = "?d\<lparr>db_bookings := db_bookings ?d @ [?b]\<rparr>"
  have staff: "isStaffUser (req_user ?q)"
    by (simp add: isStaffUser_def exampleRequest_def staffMember_def)
  have assigned: "assignTables ?d ?q True = Inr [6]"
    by (simp add: assignTables_def exampleRequest_def)
  have schema: "schemaAccepts exampleLibrary ?b"
    by (simp add: schemaAccepts_def bookingData_def exampleRequest_def exampleLibrary_def
        requestDuration_def)
  have "db_restaurant ?d1 = Some exampleRestaurant" by (simp add: exampleDb_def)
  moreover have "0 < timeSlotDuration (bookingRules exampleRestaurant)"
    by (simp add: exampleRestaurant_def exampleRules_def)
  ultimately obtain d' where
    d': "updateAvailabilityCache exampleLibrary friday ?d1 = Some (Inr d')"
    using updateAvailabilityCache_returns[of ?d1 exampleRestaurant friday "''18:00''"
        "''23:45''" exampleLibrary] example_cacheHours
    by blast
  from updateAvailabilityCache_keeps[OF d']
  have kept: "db_bookings d' = [?old, ?b]" by (simp add: exampleDb_def)
  have created: "createBooking exampleLibrary ?d ?q = Some (Created ?b, d')"
    using assigned schema d'
    by (simp add: createBooking_staff[OF staff] example_request_sel)
  have old: "booking_tables ?old = [6]" "booking_status ?old = Confirmed"
    "timeSlot_start ?old = 154800000" "timeSlot_end ?old = 162000000"
    by (simp_all add: exampleBooking_def clock_def friday_def time_defs)
  have new: "booking_tables ?b = [6]" "booking_status ?b = Confirmed"
    "timeSlot_start ?b = 158400000" "timeSlot_end ?b = 165600000"
    by (simp_all add: bookingData_def requestStart_def requestEnd_def requestDuration_def
        exampleRequest_def clock_def friday_def time_defs)
  show "\<exists>b d'.
        createBooking exampleLibrary ?d ?q = Some (Created b, d')
        \<and> db_bookings d' = [?old, b]
        \<and> booking_tables ?old = [6] \<and> booking_status ?old = Confirmed
        \<and> timeSlot_start ?old = 154800000 \<and> timeSlot_end ?old = 162000000
        \<and> booking_tables b = [6] \<and> booking_status b = Confirmed
        \<and> timeSlot_start b = 158400000 \<and> timeSlot_end b = 165600000"
    using created kept old new by blast
qed

section \<open>The capacity guard\<close>

lemma toDouble_29_percent: "toDouble 29 100 = (5224175567749775, -54)"
  by (simp add: double_eval)

lemma toDouble_29_seats:
  "toDouble 522417556774977500 18014398509481984 = (8162774324609023, -48)"
  by (simp add: double_eval)

lemma maxAllowed_29: "maxAllowed 100 29 = 28"
  by (simp add: maxAllowed_def toDouble_29_percent toDouble_29_seats)

text \<open>
  C8 fails on the arithmetic. With 100 seats and a threshold of 29 percent the exact
  limit is 29, but the quotient 29 / 100 is rounded to a binary fraction below 0.29,
  the product is rounded to a value below 29, and its floor is 28. Twenty people are
  booked from 19:00 to 21:00; a guest who asks for nine people in that window, 29 in
  all, is turned away with the capacity message although a table for ten is free,
  both by the table search and by the create handler. The same request from staff is
  given the table.
\<close>

theorem capacity_guard_rounds_down:
  "maxAllowed 100 29 = 28
   \<and> (100 * 29) div 100 = (29 :: int)
   \<and> maxCapacity hallRestaurant = 100
   \<and> maxCapacityThreshold (bookingRules hallRestaurant) = 29
   \<and> currentBookedPeople
        (overlappingBookings (db_bookings (hallDb [exampleBooking 1 [1] 20 19 21 Confirmed]))
           friday (atTime friday (clock 19 0)) (atTime friday (clock 21 0)))
        (atTime friday (clock 19 0)) (atTime friday (clock 21 0)) = 20
   \<and> findAvailableTables (hallDb [exampleBooking 1 [1] 20 19 21 Confirmed]) friday
        (atTime friday (clock 19 0)) (atTime friday (clock 21 0)) 9 False
       = Inr (Unavailable CapacityExceeded)
   \<and> createBooking exampleLibrary (hallDb [exampleBooking 1 [1] 20 19 21 Confirmed])
        (exampleRequest None friday (clock 19 0) None 9 [])
       = Some (BadRequest CapacityExceeded, hallDb [exampleBooking 1 [1] 20 19 21 Confirmed])
   \<and> findAvailableTables (hallDb [exampleBooking 1 [1] 20 19 21 Confirmed]) friday
        (atTime friday (clock 19 0)) (atTime friday (clock 21 0)) 9 True
       = Inr (Available [exampleTable 2 ''B2'' 10] 10)"
proof -
  let ?d = "hallDb [exampleBooking 1 [1] 20 19 21 Confirmed]"
  let ?s = "atTime friday (clock 19 0)" and ?e = "atTime friday (clock 21 0)"
  let ?g = "exampleRequest None friday (clock 19 0) None 9 []"
  have exact: "(100 * 29) div 100 = (29 :: int)" by simp
  have r: "maxCapacity hallRestaurant = 100"
    "maxCapacityThreshold (bookingRules hallRestaurant) = 29"
    "maxPartySize (bookingRules hallRestaurant) = 10"
    by (simp_all add: hallRestaurant_def exampleRestaurant_def exampleRules_def)
  have ovl: "overlappingBookings (db_bookings ?d) friday ?s ?e
      = [exampleBooking 1 [1] 20 19 21 Confirmed]"
    by (simp add: overlappingBookings_def activeStatus_def hallDb_def example_defs time_defs)
  have people: "currentBookedPeople (overlappingBookings (db_bookings ?d) friday ?s ?e) ?s ?e
      = 20"
    unfolding ovl
    by (simp add: currentBookedPeople_def example_defs time_defs)
  have solver: "findBestTableCombination [exampleTable 2 ''B2'' 10] 9
      = [exampleTable 2 ''B2'' 10]"
    by (simp add: findBestTableCombination_def exampleTable_def)
  have free: "sort_key capacity
      (filter (\<lambda>t. table_id t \<notin> set (bookedTableIds (overlappingBookings (db_bookings ?d)
                      friday ?s ?e)) \<and> isReservable t)
         (filter isActive (db_tables ?d)))
      = [exampleTable 2 ''B2'' 10]"
    unfolding ovl
    by (simp add: bookedTableIds_def hallDb_def exampleBooking_def exampleTable_def)
  have active: "filter isActive (db_tables ?d) \<noteq> []"
    "db_restaurant ?d = Some hallRestaurant"
    by (simp_all add: hallDb_def exampleTable_def)
  have guest: "findAvailableTables ?d friday ?s ?e 9 False = Inr (Unavailable CapacityExceeded)"
    unfolding findAvailableTables_def Let_def free people solver active(2) r
    using active(1)
    by (simp add: r maxAllowed_29 comboCapacity_def exampleTable_def)
  have staff: "findAvailableTables ?d friday ?s ?e 9 True
      = Inr (Available [exampleTable 2 ''B2'' 10] 10)"
    unfolding findAvailableTables_def Let_def free people solver active(2) r
    using active(1)
    by (simp add: r comboCapacity_def exampleTable_def)
  have w: "requestStart ?g = ?s" "requestEnd ?g = ?e" "req_date ?g = friday"
    "req_partySize ?g = 9"
    by (simp_all add: requestStart_def requestEnd_def requestDuration_def
        exampleRequest_def atTime_def msPerMinute_def clock_def)
  have opn: "checkRestaurantOpen exampleLibrary (Some hallRestaurant) friday ?s ?e = IsOpen"
    by (simp add: checkRestaurantOpen_def findDayHours_def withinHours_def text_defs
        hallRestaurant_def example_defs time_defs)
  have "customerChecks exampleLibrary ?d ?g = Inr (Some CapacityExceeded)"
    unfolding customerChecks_def w active(2) opn guest by (simp add: r)
  then have create: "createBooking exampleLibrary ?d ?g = Some (BadRequest CapacityExceeded, ?d)"
    by (simp add: createBooking_def isStaffUser_def exampleRequest_def)
  show ?thesis by (intro conjI maxAllowed_29 exact r(1,2) people guest create staff)
qed

end
